theory Spec2Isabelle
  imports Main "HOL-Library.Sublist" "HOL-Library.AList"
begin

section \<open>Python values used by with\_gui.py\<close>

text \<open>
  A Python \<open>str\<close> is modelled as a \<^typ>\<open>string\<close>: each \<^typ>\<open>char\<close> stands for one code
  point below 256. Exceptions are values: a function that can raise returns
  \<open>exn + 'a\<close>, with \<open>Inl\<close> the exception that leaves the function.
\<close>

datatype exn =
    ValueError string
  | CalledProcessError int string string
  | OSError string
  | IndexError

subsection \<open>Integers as text\<close>

definition digit_char :: "nat \<Rightarrow> char" where
  "digit_char d = char_of (48 + d)"

fun str_nat :: "nat \<Rightarrow> string" where
  "str_nat n = (if n < 10 then [digit_char n] else str_nat (n div 10) @ [digit_char (n mod 10)])"

declare str_nat.simps [simp del]

text \<open>\<open>str(i)\<close> for a Python int.\<close>

definition str_int :: "int \<Rightarrow> string" where
  "str_int i = (if i < 0 then CHR ''-'' # str_nat (nat (- i)) else str_nat (nat i))"

definition zfill :: "nat \<Rightarrow> string \<Rightarrow> string" where
  "zfill w s = replicate (w - length s) CHR ''0'' @ s"

text \<open>
  The format specification \<open>{x:0w}\<close> for an int: sign-aware zero padding, the sign
  counts towards the width.
\<close>

definition format_zero_pad :: "nat \<Rightarrow> int \<Rightarrow> string" where
  "format_zero_pad w x =
     (if x < 0 then CHR ''-'' # zfill (w - 1) (str_nat (nat (- x)))
      else zfill w (str_nat (nat x)))"

subsection \<open>String methods\<close>

definition startswith :: "string \<Rightarrow> string \<Rightarrow> bool" where
  "startswith s p = (take (length p) s = p)"

text \<open>
  \<open>str.isspace\<close> on one character, for code points below 256: tab to carriage return,
  the four separators 0x1C to 0x1F, space, NEL and the no-break space.
\<close>

definition is_space :: "char \<Rightarrow> bool" where
  "is_space c = (let n = of_char c :: nat in
     (9 \<le> n \<and> n \<le> 13) \<or> (28 \<le> n \<and> n \<le> 31) \<or> n = 32 \<or> n = 133 \<or> n = 160)"

definition strip :: "string \<Rightarrow> string" where
  "strip s = rev (dropWhile is_space (rev (dropWhile is_space s)))"

text \<open>\<open>s.split(sep, maxsplit)\<close> for a one-character separator.\<close>

primrec split_max :: "char \<Rightarrow> nat \<Rightarrow> string \<Rightarrow> string list" where
  "split_max sep 0 s = [s]"
| "split_max sep (Suc n) s =
     (if sep \<in> set s
      then takeWhile (\<lambda>c. c \<noteq> sep) s # split_max sep n (tl (dropWhile (\<lambda>c. c \<noteq> sep) s))
      else [s])"

text \<open>\<open>s.split(sep)\<close>: no limit; a string has at most \<open>length s\<close> separators.\<close>

definition split_all :: "char \<Rightarrow> string \<Rightarrow> string list" where
  "split_all sep s = split_max sep (length s) s"

text \<open>
  \<open>str.splitlines\<close>, for code points below 256: a line ends at LF, CR, CR LF, VT, FF,
  FS, GS, RS or NEL; the terminators are dropped and a final terminator opens no
  empty last line.
\<close>

definition is_linebreak :: "char \<Rightarrow> bool" where
  "is_linebreak c = (let n = of_char c :: nat in
     n = 10 \<or> n = 11 \<or> n = 12 \<or> n = 13 \<or> n = 28 \<or> n = 29 \<or> n = 30 \<or> n = 133)"

fun splitlines_from :: "string \<Rightarrow> string \<Rightarrow> string list" where
  "splitlines_from cur [] = (if cur = [] then [] else [cur])"
| "splitlines_from cur [c] = (if is_linebreak c then [cur] else [cur @ [c]])"
| "splitlines_from cur (c # d # cs) =
     (if c = CHR 0x0D \<and> d = CHR 0x0A then cur # splitlines_from [] cs
      else if is_linebreak c then cur # splitlines_from [] (d # cs)
      else splitlines_from (cur @ [c]) (d # cs))"

definition splitlines :: "string \<Rightarrow> string list" where
  "splitlines s = splitlines_from [] s"

text \<open>\<open>xs[i]\<close> raises IndexError out of range.\<close>

definition getitem :: "'a list \<Rightarrow> nat \<Rightarrow> exn + 'a" where
  "getitem xs i = (if i < length xs then Inr (xs ! i) else Inl IndexError)"

subsection \<open>datetime.timedelta and datetime.datetime\<close>

text \<open>
  A \<open>timedelta\<close> holds normalised days, seconds (0 to 86399) and microseconds
  (0 to 999999); a negative span has negative days.
\<close>

record timedelta =
  days :: int
  seconds :: int
  microseconds :: int

definition total_microseconds :: "timedelta \<Rightarrow> int" where
  "total_microseconds td = (days td * 86400 + seconds td) * 1000000 + microseconds td"

text \<open>
  \<open>a / b\<close> on two Python ints is the quotient rounded to the nearest double: a
  significand of 53 bits, ties to the even significand. \<open>rne a b\<close> is the integer
  nearest to \<open>a / b\<close>, ties to even; \<open>shift_up\<close> and \<open>shift_down\<close> count the doublings
  of \<open>a\<close> or of \<open>b\<close> that bring the quotient into the range of a 53-bit significand,
  from \<open>2^52\<close> up to \<open>2^53\<close>. The exponent of a double is not bounded here: the
  quotients of this program lie between one millionth and \<open>2^47\<close>.
\<close>

definition rne :: "int \<Rightarrow> int \<Rightarrow> int" where
  "rne a b =
     (let q = a div b; r = a mod b
      in if 2 * r < b \<or> (2 * r = b \<and> even q) then q else q + 1)"

function shift_up :: "int \<Rightarrow> int \<Rightarrow> nat" where
  "shift_up a b =
     (if 0 < a \<and> 0 < b \<and> a < 2 ^ 52 * b then Suc (shift_up (2 * a) b) else 0)"
  by pat_completeness auto
termination
  by (relation "measure (\<lambda>(a, b). nat (2 ^ 52 * b - a))") auto

function shift_down :: "int \<Rightarrow> int \<Rightarrow> nat" where
  "shift_down a b =
     (if 0 < a \<and> 0 < b \<and> 2 ^ 53 * b \<le> a then Suc (shift_down a (2 * b)) else 0)"
  by pat_completeness auto
termination
  by (relation "measure (\<lambda>(a, b). nat (a - 2 ^ 53 * b + 1))") auto

declare shift_up.simps [simp del] shift_down.simps [simp del]

text \<open>
  A double is kept as a pair \<open>(m, k)\<close> that stands for \<open>m / 2^k\<close>. \<open>nearest_double a b\<close>
  is the double nearest to \<open>a / b\<close>, for \<open>0 \<le> a\<close> and \<open>0 < b\<close>.
\<close>

type_synonym dyadic = "int \<times> nat"

definition nearest_double :: "int \<Rightarrow> int \<Rightarrow> dyadic" where
  "nearest_double a b =
     (let k = shift_up a b; j = shift_down a b
      in (rne (a * 2 ^ k) (b * 2 ^ j) * 2 ^ j, k))"

text \<open>\<open>int(a / b)\<close> for Python ints \<open>0 \<le> a\<close> and \<open>0 < b\<close>: \<open>int\<close> drops the fraction.\<close>

definition int_truediv :: "int \<Rightarrow> int \<Rightarrow> int" where
  "int_truediv a b = (let d = nearest_double a b in fst d div 2 ^ snd d)"

text \<open>
  \<open>int(duration.total_seconds())\<close>. \<open>total_seconds()\<close> divides the span in microseconds
  by \<open>10^6\<close> as Python ints, which gives a double; \<open>int\<close> truncates it towards zero.
  The double of a negative quotient is the negated double of its absolute value.
\<close>

definition int_total_seconds :: "timedelta \<Rightarrow> int" where
  "int_total_seconds td =
     (let us = total_microseconds td
      in if 0 \<le> us then int_truediv us 1000000 else - int_truediv (- us) 1000000)"

text \<open>The constructor \<open>timedelta(hours=h, minutes=m, seconds=s)\<close> on ints.\<close>

definition timedelta_hms :: "int \<Rightarrow> int \<Rightarrow> int \<Rightarrow> timedelta" where
  "timedelta_hms h m s =
     (let t = h * 3600 + m * 60 + s
      in \<lparr>days = t div 86400, seconds = t mod 86400, microseconds = 0\<rparr>)"

record datetime =
  day_ordinal :: int
  hour :: nat
  minute :: nat
  second :: nat
  microsecond :: nat

definition valid_datetime :: "datetime \<Rightarrow> bool" where
  "valid_datetime d = (hour d < 24 \<and> minute d < 60 \<and> second d < 60 \<and> microsecond d < 1000000)"

text \<open>\<open>d + datetime.timedelta(minutes=n)\<close>.\<close>

definition add_minutes :: "datetime \<Rightarrow> nat \<Rightarrow> datetime" where
  "add_minutes d n =
     (let t = hour d * 60 + minute d + n
      in d\<lparr>day_ordinal := day_ordinal d + int (t div 1440),
            hour := (t mod 1440) div 60,
            minute := t mod 60\<rparr>)"

text \<open>\<open>d.strftime("%H:%M")\<close>.\<close>

definition strftime_HM :: "datetime \<Rightarrow> string" where
  "strftime_HM d = zfill 2 (str_nat (hour d)) @ '':'' @ zfill 2 (str_nat (minute d))"

section \<open>The duration helpers\<close>

text \<open>
  \<open>isodate.parse_duration\<close> is a library the program imports. Its three outcomes are
  a \<open>datetime.timedelta\<close>, an \<open>isodate.Duration\<close> (a span with calendar years or
  months), or an exception with text \<open>str(e)\<close>. \<open>parse_iso_duration\<close> takes the
  library function as a parameter; the next section models the library.
\<close>

datatype iso_result =
    IsoTimedelta timedelta
  | IsoDuration
  | IsoRaise string

definition parse_iso_duration :: "(string \<Rightarrow> iso_result) \<Rightarrow> string \<Rightarrow> exn + timedelta" where
  "parse_iso_duration isodate_parse_duration duration_str =
     (case isodate_parse_duration duration_str of
        IsoTimedelta duration \<Rightarrow> Inr duration
      | IsoDuration \<Rightarrow>
          Inl (ValueError (''Error parsing duration: '' @ ''Invalid duration format.''))
      | IsoRaise e \<Rightarrow> Inl (ValueError (''Error parsing duration: '' @ e)))"

definition format_duration_for_schtasks :: "timedelta \<Rightarrow> string" where
  "format_duration_for_schtasks duration =
     (let total_seconds = int_total_seconds duration;
          hours = total_seconds div 3600;
          minutes = (total_seconds mod 3600) div 60
      in format_zero_pad 2 hours @ '':'' @ format_zero_pad 2 minutes)"

section \<open>The isodate library\<close>

text \<open>
  \<open>isodate.parse_duration\<close> is the library function that \<open>parse_iso_duration\<close> calls; the
  library is no part of the repository. It matches the text against its duration
  pattern
  \<^verbatim>\<open>^[+-]?P(?!\b)(nY)?(nM)?(nW)?(nD)?(T(nH)?(nM)?(nS)?)?$\<close> where \<open>n\<close> is
  \<^verbatim>\<open>[0-9]+([,.][0-9]+)?\<close>,
  reads years and months as \<open>Decimal\<close> and the other groups as \<open>float\<close> (a group that
  is absent counts 0), and returns \<open>timedelta(days, hours, minutes, seconds, weeks)\<close> of
  the floats when years and months are zero, a \<open>Duration\<close> otherwise; after a minus sign
  the result is subtracted from zero. Text that does not match is handed, when it
  starts with P, to the library's date and time parser, whose result is never a
  \<open>timedelta\<close>; other text raises.
\<close>

subsection \<open>The duration pattern\<close>

text \<open>A decimal numeral, as its digits read as one integer and the count of fraction digits.\<close>

type_synonym decimal = "int \<times> nat"

definition is_digit :: "char \<Rightarrow> bool" where
  "is_digit c = (let n = of_char c :: nat in 48 \<le> n \<and> n \<le> 57)"

definition int_of_digits :: "string \<Rightarrow> int" where
  "int_of_digits ds = foldl (\<lambda>n c. 10 * n + (of_char c - 48)) 0 ds"

text \<open>\<^verbatim>\<open>[0-9]+([,.][0-9]+)?\<close> at the head of the text, and the text after it.\<close>

definition take_decimal :: "string \<Rightarrow> (decimal \<times> string) option" where
  "take_decimal s =
     (let i = takeWhile is_digit s; r = dropWhile is_digit s
      in if i = [] then None
         else (case r of
                 [] \<Rightarrow> Some ((int_of_digits i, 0), r)
               | c # r' \<Rightarrow>
                   (let f = takeWhile is_digit r'
                    in if (c = CHR '','' \<or> c = CHR ''.'') \<and> f \<noteq> []
                       then Some ((int_of_digits (i @ f), length f), dropWhile is_digit r')
                       else Some ((int_of_digits i, 0), r))))"

text \<open>An optional group \<^verbatim>\<open>(nX)?\<close>: the numeral, if the designator \<open>X\<close> follows it.\<close>

definition take_component :: "char \<Rightarrow> string \<Rightarrow> decimal option \<times> string" where
  "take_component x s =
     (case take_decimal s of
        Some (d, c # r) \<Rightarrow> if c = x then (Some d, r) else (None, s)
      | _ \<Rightarrow> (None, s))"

text \<open>\<open>match.groupdict()\<close>\<close>

record groups =
  g_sign :: "char option"
  g_years :: "decimal option"
  g_months :: "decimal option"
  g_weeks :: "decimal option"
  g_days :: "decimal option"
  g_hours :: "decimal option"
  g_minutes :: "decimal option"
  g_seconds :: "decimal option"

text \<open>
  \<^verbatim>\<open>(?!\b)\<close> after the P asks for a next character that is a letter, a digit or
  an underscore. Beyond ASCII no character goes on with the pattern, so the ASCII ones
  are listed.
\<close>

definition word_char :: "char \<Rightarrow> bool" where
  "word_char c = (let n = of_char c :: nat in
     (48 \<le> n \<and> n \<le> 57) \<or> (65 \<le> n \<and> n \<le> 90) \<or> n = 95 \<or> (97 \<le> n \<and> n \<le> 122))"

text \<open>\<^verbatim>\<open>(T(nH)?(nM)?(nS)?)?\<close>\<close>

definition match_time ::
  "string \<Rightarrow> (decimal option \<times> decimal option \<times> decimal option) \<times> string" where
  "match_time s =
     (case s of
        [] \<Rightarrow> ((None, None, None), s)
      | c # r \<Rightarrow>
          if c = CHR ''T'' then
            (let (h, r1) = take_component CHR ''H'' r;
                 (mi, r2) = take_component CHR ''M'' r1;
                 (se, r3) = take_component CHR ''S'' r2
             in ((h, mi, se), r3))
          else ((None, None, None), s))"

text \<open>
  The whole pattern; \<^verbatim>\<open>$\<close> is the end of the text or a newline that ends it.
  \<open>None\<close> is no match.
\<close>

definition match_period :: "string \<Rightarrow> groups option" where
  "match_period s =
     (let (sg, s1) = (case s of
                        [] \<Rightarrow> (None, s)
                      | c # r \<Rightarrow> if c = CHR ''+'' \<or> c = CHR ''-'' then (Some c, r) else (None, s))
      in case s1 of
           [] \<Rightarrow> None
         | p # s2 \<Rightarrow>
             if p \<noteq> CHR ''P'' \<or> s2 = [] \<or> \<not> word_char (hd s2) then None
             else
               (let (y, s3) = take_component CHR ''Y'' s2;
                    (mo, s4) = take_component CHR ''M'' s3;
                    (w, s5) = take_component CHR ''W'' s4;
                    (d, s6) = take_component CHR ''D'' s5;
                    ((h, mi, se), s7) = match_time s6
                in if s7 = [] \<or> s7 = [CHR 0x0A]
                   then Some \<lparr>g_sign = sg, g_years = y, g_months = mo, g_weeks = w, g_days = d,
                              g_hours = h, g_minutes = mi, g_seconds = se\<rparr>
                   else None))"

text \<open>A group that did not take part counts as the numeral 0.\<close>

definition group_value :: "decimal option \<Rightarrow> decimal" where
  "group_value g = (case g of None \<Rightarrow> (0, 0) | Some d \<Rightarrow> d)"

subsection \<open>The timedelta of the floats\<close>

text \<open>\<open>float(text)\<close> of a decimal numeral: the nearest double.\<close>

definition float_of_decimal :: "decimal \<Rightarrow> dyadic" where
  "float_of_decimal d = nearest_double (fst d) (10 ^ snd d)"

text \<open>The sum of two doubles, rounded to a double.\<close>

definition add_double :: "dyadic \<Rightarrow> dyadic \<Rightarrow> dyadic" where
  "add_double x y = nearest_double (fst x * 2 ^ snd y + fst y * 2 ^ snd x) (2 ^ (snd x + snd y))"

text \<open>
  The constructor of \<open>timedelta\<close> adds up microseconds, one argument after the other.
  Of a float it takes the whole part times the factor exactly; the fraction times the
  factor is a double again, whose whole part is added and whose fraction goes to the
  left-over, a double.
\<close>

definition accum :: "int \<times> dyadic \<Rightarrow> int \<times> dyadic \<Rightarrow> int \<times> dyadic" where
  "accum st fn =
     (let (sofar, leftover) = st; (factor, num) = fn;
          intpart = fst num div 2 ^ snd num;
          fracpart = fst num mod 2 ^ snd num;
          sum = sofar + intpart * factor
      in if fracpart = 0 then (sum, leftover)
         else (let dnum = nearest_double (factor * fracpart) (2 ^ snd num)
               in (sum + fst dnum div 2 ^ snd dnum,
                   add_double leftover (fst dnum mod 2 ^ snd dnum, snd dnum))))"

text \<open>
  The left-over is rounded to whole microseconds and added; a left-over that ends in
  one half goes to the side that makes the total even.
\<close>

definition round_leftover :: "int \<times> dyadic \<Rightarrow> int" where
  "round_leftover st =
     (let (x, leftover) = st;
          whole = fst leftover div 2 ^ snd leftover;
          r = fst leftover mod 2 ^ snd leftover
      in if 2 * r < 2 ^ snd leftover then x + whole
         else if 2 ^ snd leftover < 2 * r then x + whole + 1
         else if even (x + whole) then x + whole else x + whole + 1)"

text \<open>
  Microseconds as a normalised \<open>timedelta\<close>; \<open>None\<close> is the OverflowError for more than
  999999999 days in either direction.
\<close>

definition microseconds_to_delta :: "int \<Rightarrow> timedelta option" where
  "microseconds_to_delta x =
     (let d = x div 86400000000; r = x mod 86400000000
      in if d < - 999999999 \<or> 999999999 < d then None
         else Some \<lparr>days = d, seconds = r div 1000000, microseconds = r mod 1000000\<rparr>)"

text \<open>
  \<open>timedelta(days=.., hours=.., minutes=.., seconds=.., weeks=..)\<close> on the floats of the
  groups; the constructor takes seconds, minutes, hours, days and weeks in this order.
\<close>

definition timedelta_new :: "groups \<Rightarrow> timedelta option" where
  "timedelta_new g =
     microseconds_to_delta
       (round_leftover
          (foldl accum (0, (0, 0))
             [(1000000, float_of_decimal (group_value (g_seconds g))),
              (60000000, float_of_decimal (group_value (g_minutes g))),
              (3600000000, float_of_decimal (group_value (g_hours g))),
              (86400000000, float_of_decimal (group_value (g_days g))),
              (604800000000, float_of_decimal (group_value (g_weeks g)))]))"

text \<open>After a minus sign, \<open>timedelta(0) - ret\<close>, which can overflow in its turn.\<close>

definition signed_timedelta :: "groups \<Rightarrow> timedelta option" where
  "signed_timedelta g =
     (case timedelta_new g of
        None \<Rightarrow> None
      | Some td \<Rightarrow>
          if g_sign g = Some CHR ''-'' then microseconds_to_delta (- total_microseconds td)
          else Some td)"

text \<open>Years or months that are not zero make the result a \<open>Duration\<close>.\<close>

definition calendar :: "groups \<Rightarrow> bool" where
  "calendar g = (fst (group_value (g_years g)) \<noteq> 0 \<or> fst (group_value (g_months g)) \<noteq> 0)"

subsection \<open>parse\_duration\<close>

text \<open>
  Two things the model leaves to the library: the text \<open>str(e)\<close> of the exception it
  raises for a given input, and whether its date and time parser accepts what follows
  a P that the pattern did not match. Neither decides whether the result is a
  \<open>timedelta\<close>.
\<close>

record isodate_texts =
  explain :: "string \<Rightarrow> string"
  alternative_format :: "string \<Rightarrow> bool"

definition parse_duration :: "isodate_texts \<Rightarrow> string \<Rightarrow> iso_result" where
  "parse_duration lib datestring =
     (case match_period datestring of
        None \<Rightarrow>
          if startswith datestring ''P'' \<and> alternative_format lib datestring then IsoDuration
          else IsoRaise (explain lib datestring)
      | Some g \<Rightarrow>
          (case signed_timedelta g of
             None \<Rightarrow> IsoRaise (explain lib datestring)
           | Some td \<Rightarrow> if calendar g then IsoDuration else IsoTimedelta td))"

section \<open>The operating system's scheduler tool\<close>

text \<open>
  \<open>subprocess.run(cmd, capture_output=True, text=True, check=True)\<close> either runs the
  command to an exit code with its captured output, or cannot start it (the
  executable is missing: FileNotFoundError, an OSError). With \<open>check=True\<close> a
  non-zero exit code raises CalledProcessError, which carries the captured output.
\<close>

datatype proc_outcome =
    Exited int string string
  | NotStarted string

text \<open>
  What one call of the program sees of the world: the answer of the operating system
  to each command line, the imported duration parser, and the clock that
  \<open>datetime.datetime.now()\<close> reads.
\<close>

record env =
  run_process :: "string list \<Rightarrow> proc_outcome"
  isodate_parse_duration :: "string \<Rightarrow> iso_result"
  datetime_now :: datetime

text \<open>The result holds \<open>result.stdout\<close> and \<open>result.stderr\<close>.\<close>

definition subprocess_run :: "env \<Rightarrow> string list \<Rightarrow> exn + (string \<times> string)" where
  "subprocess_run e cmd =
     (case run_process e cmd of
        Exited rc out err \<Rightarrow>
          if rc \<noteq> 0 then Inl (CalledProcessError rc out err) else Inr (out, err)
      | NotStarted m \<Rightarrow> Inl (OSError m))"

section \<open>Looking up an existing task\<close>

text \<open>The dict \<open>details\<close>, as an association list; \<open>d.get(k, default)\<close>.\<close>

type_synonym details = "(string \<times> string) list"

definition dict_get :: "details \<Rightarrow> string \<Rightarrow> string \<Rightarrow> string" where
  "dict_get d k dflt = (case map_of d k of Some v \<Rightarrow> v | None \<Rightarrow> dflt)"

text \<open>\<open>line.split(":", 1)[1].strip()\<close>\<close>

definition after_colon :: "string \<Rightarrow> exn + string" where
  "after_colon line =
     (case getitem (split_max CHR '':'' 1 line) 1 of
        Inl e \<Rightarrow> Inl e
      | Inr r \<Rightarrow> Inr (strip r))"

text \<open>\<open>line.split(" ", 2)[2].strip().split(" ")[0]\<close>\<close>

definition interval_field :: "string \<Rightarrow> exn + string" where
  "interval_field line =
     (case getitem (split_max CHR '' '' 2 line) 2 of
        Inl e \<Rightarrow> Inl e
      | Inr r \<Rightarrow> getitem (split_all CHR '' '' (strip r)) 0)"

text \<open>One pass of the loop body over a line of the query's output.\<close>

definition details_line :: "string \<Rightarrow> details \<Rightarrow> exn + details" where
  "details_line line d =
     (if startswith line ''Task Name:'' then
        (case after_colon line of Inl e \<Rightarrow> Inl e
         | Inr v \<Rightarrow> Inr (AList.update ''Task Name'' v d))
      else if startswith line ''Task To Run:'' then
        (case after_colon line of Inl e \<Rightarrow> Inl e
         | Inr v \<Rightarrow> Inr (AList.update ''Command Path'' v d))
      else if startswith line ''Repeat: Every'' then
        (case interval_field line of Inl e \<Rightarrow> Inl e
         | Inr v \<Rightarrow> Inr (AList.update ''Interval'' v d))
      else if startswith line ''Duration:'' then
        (case after_colon line of Inl e \<Rightarrow> Inl e
         | Inr v \<Rightarrow> Inr (AList.update ''Duration'' v d))
      else Inr d)"

fun extract_details :: "string list \<Rightarrow> details \<Rightarrow> exn + details" where
  "extract_details [] d = Inr d"
| "extract_details (line # ls) d =
     (case details_line line d of
        Inl e \<Rightarrow> Inl e
      | Inr d' \<Rightarrow> extract_details ls d')"

definition query_cmd :: "string \<Rightarrow> string list" where
  "query_cmd task_name = [''schtasks'', ''/query'', ''/tn'', task_name, ''/fo'', ''LIST'', ''/v'']"

text \<open>
  The result is paired with the command lines handed to \<open>subprocess.run\<close>, in order.
  Only CalledProcessError is caught; any other exception leaves the function.
\<close>

definition get_existing_task_details ::
  "env \<Rightarrow> string \<Rightarrow> (exn + details option) \<times> string list list" where
  "get_existing_task_details e task_name =
     (let cmd = query_cmd task_name
      in ((case subprocess_run e cmd of
             Inl (CalledProcessError rc out err) \<Rightarrow> Inr None
           | Inl x \<Rightarrow> Inl x
           | Inr (out, err) \<Rightarrow>
               (case extract_details (splitlines out) [] of
                  Inl x \<Rightarrow> Inl x
                | Inr d \<Rightarrow> if d \<noteq> [] then Inr (Some d) else Inr None)),
          [cmd]))"

section \<open>Scheduling a task\<close>

definition sq :: char where
  "sq = CHR 0x27"

definition nl :: char where
  "nl = CHR 0x0A"

definition exists_message :: "string \<Rightarrow> string \<Rightarrow> int \<Rightarrow> string \<Rightarrow> details \<Rightarrow> string" where
  "exists_message task_name command_path interval duration_str existing_task =
     ''Task '' @ [sq] @ task_name @ [sq] @ '' already exists with the following details:'' @ [nl] @
     ''Task Name: '' @ dict_get existing_task ''Task Name'' task_name @ [nl] @
     ''Command Path: '' @ dict_get existing_task ''Command Path'' command_path @ [nl] @
     ''Interval (minutes): '' @ dict_get existing_task ''Interval'' (str_int interval) @ [nl] @
     ''Duration (ISO 8601 format): '' @ dict_get existing_task ''Duration'' duration_str"

definition success_notice :: "string \<Rightarrow> string" where
  "success_notice task_name = ''Task '' @ [sq] @ task_name @ [sq] @ '' scheduled successfully.'' @ [nl]"

definition failure_notice :: "string \<Rightarrow> string" where
  "failure_notice task_name = ''Error scheduling task '' @ [sq] @ task_name @ [sq] @ '':'' @ [nl]"

definition create_cmd :: "string \<Rightarrow> string \<Rightarrow> string \<Rightarrow> int \<Rightarrow> string \<Rightarrow> string list" where
  "create_cmd task_name command_path start_time interval du_value =
     [''schtasks'', ''/create'', ''/tn'', task_name,
      ''/sc'', ''DAILY'', ''/tr'', command_path,
      ''/st'', start_time, ''/ri'', str_int interval, ''/du'', du_value, ''/f'']"

text \<open>The two \<open>except\<close> clauses of \<open>schedule_task\<close>; any other exception propagates.\<close>

definition schedule_except :: "string \<Rightarrow> exn \<Rightarrow> exn + string" where
  "schedule_except task_name x =
     (case x of
        CalledProcessError rc out err \<Rightarrow> Inr (failure_notice task_name @ err)
      | ValueError m \<Rightarrow> Inr m
      | _ \<Rightarrow> Inl x)"

text \<open>The \<open>try\<close> block of \<open>schedule_task\<close>, with the commands it hands to \<open>subprocess.run\<close>.\<close>

definition schedule_try ::
  "env \<Rightarrow> string \<Rightarrow> string \<Rightarrow> int \<Rightarrow> string \<Rightarrow> (exn + string) \<times> string list list" where
  "schedule_try e task_name command_path interval duration_str =
     (case parse_iso_duration (isodate_parse_duration e) duration_str of
        Inl x \<Rightarrow> (schedule_except task_name x, [])
      | Inr duration_td \<Rightarrow>
          (let du_value = format_duration_for_schtasks duration_td;
               start_time = strftime_HM (add_minutes (datetime_now e) 1);
               cmd = create_cmd task_name command_path start_time interval du_value
           in (case subprocess_run e cmd of
                 Inl x \<Rightarrow> (schedule_except task_name x, [cmd])
               | Inr (out, err) \<Rightarrow> (Inr (success_notice task_name @ out), [cmd]))))"

definition schedule_task ::
  "env \<Rightarrow> string \<Rightarrow> string \<Rightarrow> int \<Rightarrow> string \<Rightarrow> (exn + string) \<times> string list list" where
  "schedule_task e task_name command_path interval duration_str =
     (case get_existing_task_details e task_name of
        (Inl x, cmds) \<Rightarrow> (Inl x, cmds)
      | (Inr existing_task, cmds) \<Rightarrow>
          (let created =
                 (case schedule_try e task_name command_path interval duration_str of
                    (r, cmds2) \<Rightarrow> (r, cmds @ cmds2))
           in case existing_task of
                None \<Rightarrow> created
              | Some d \<Rightarrow>
                  if d \<noteq> [] then
                    (Inr (exists_message task_name command_path interval duration_str d), cmds)
                  else created))"

section \<open>Measuring the start time\<close>

text \<open>
  Microseconds from the clock reading \<open>now\<close> until the wall clock next shows
  \<open>hh:mm:00\<close>, the instant a start time \<open>hh:mm\<close> names.
\<close>

definition time_of_day_us :: "datetime \<Rightarrow> int" where
  "time_of_day_us d =
     ((int (hour d) * 60 + int (minute d)) * 60 + int (second d)) * 1000000 + int (microsecond d)"

definition microseconds_until :: "datetime \<Rightarrow> nat \<Rightarrow> nat \<Rightarrow> int" where
  "microseconds_until now hh mm =
     (let target = (int hh * 60 + int mm) * 60 * 1000000; t = time_of_day_us now
      in if t < target then target - t else target + 86400000000 - t)"

section \<open>Sample surroundings for worked examples\<close>

text \<open>
  A few results of \<open>isodate.parse_duration\<close>: 3 hours, the empty span, minus one hour,
  minus half a second, a calendar month; other text is not a duration.
\<close>

definition minus_half_second :: timedelta where
  "minus_half_second = \<lparr>days = - 1, seconds = 86399, microseconds = 500000\<rparr>"

definition isodate_sample :: "string \<Rightarrow> iso_result" where
  "isodate_sample s =
     (if s = ''PT3H'' then IsoTimedelta (timedelta_hms 3 0 0)
      else if s = ''PT0S'' then IsoTimedelta (timedelta_hms 0 0 0)
      else if s = ''-PT1H'' then IsoTimedelta (timedelta_hms (- 1) 0 0)
      else if s = ''-PT0.5S'' then IsoTimedelta minus_half_second
      else if s = ''P1M'' then IsoDuration
      else IsoRaise (''Unable to parse duration string '' @ [sq] @ s @ [sq]))"

text \<open>
  The texts of the library's exceptions on a few inputs; its date and time parser
  accepts none of them.
\<close>

definition sample_texts :: isodate_texts where
  "sample_texts =
     \<lparr>explain = (\<lambda>s. if s = ''P1000000000D''
                     then ''days=1000000000; must have magnitude <= 999999999''
                     else ''Unable to parse duration string '' @ [sq] @ s @ [sq]),
      alternative_format = (\<lambda>s. False)\<rparr>"

definition half_past_noon :: datetime where
  "half_past_noon = \<lparr>day_ordinal = 739000, hour = 12, minute = 0, second = 30, microsecond = 0\<rparr>"

text \<open>
  A machine that answers the query for the task Backup with \<open>q\<close> and every other
  command with \<open>c\<close>, at 12:00:30.
\<close>

definition sample_env :: "proc_outcome \<Rightarrow> proc_outcome \<Rightarrow> env" where
  "sample_env q c =
     \<lparr>run_process = (\<lambda>cmd. if cmd = query_cmd ''Backup'' then q else c),
      isodate_parse_duration = isodate_sample,
      datetime_now = half_past_noon\<rparr>"

definition backup_bat :: string where
  "backup_bat = ''C:'' @ [CHR 0x5C] @ ''scripts'' @ [CHR 0x5C] @ ''backup.bat''"

definition not_found :: proc_outcome where
  "not_found = Exited 1 [] ''ERROR: The system cannot find the file specified.''"

definition created :: proc_outcome where
  "created = Exited 0 ''SUCCESS: The scheduled task has successfully been created.'' []"

definition denied :: proc_outcome where
  "denied = Exited 1 [] ''ERROR: Access is denied.''"

definition listing :: proc_outcome where
  "listing = Exited 0
     (''Task Name: Backup'' @ [nl] @
      ''Task To Run: C:/old/job.bat'' @ [nl] @
      ''Repeat: Every 45 Minute(s)'' @ [nl] @
      ''Duration: 08:00'' @ [nl]) []"

definition name_only_listing :: proc_outcome where
  "name_only_listing = Exited 0 (''Task Name: Backup'' @ [nl]) []"

definition unrecognised_listing :: proc_outcome where
  "unrecognised_listing = Exited 0 (''TaskName: Backup'' @ [nl] @ ''Status: Ready'' @ [nl]) []"

section \<open>Properties\<close>

subsection \<open>Dividing Python ints into a double\<close>

lemma rne_exact: "0 < b \<Longrightarrow> rne (n * b) b = n"
  by (simp add: rne_def Let_def)

lemma rne_lower:
  assumes "0 < b" and "n * b \<le> a"
  shows "n \<le> rne a b"
proof -
  have "(n * b) div b \<le> a div b" using assms by (intro zdiv_mono1) simp_all
  then have "n \<le> a div b" using assms(1) by simp
  then show ?thesis by (auto simp: rne_def Let_def)
qed

lemma rne_upper:
  assumes "0 < b" and "a \<le> n * b"
  shows "rne a b \<le> n"
proof (cases "a mod b = 0")
  case True
  then have "a = (a div b) * b" by auto
  then have "a div b \<le> n" using assms by (metis mult_le_cancel_right)
  with True assms(1) show ?thesis by (simp add: rne_def Let_def)
next
  case False
  have "a div b * b < a" using False assms(1)
    by (metis mod_mult_div_eq mult.commute less_add_same_cancel2 pos_mod_sign order_less_le)
  then have "a div b * b < n * b" using assms(2) by simp
  then have "a div b < n" using assms(1) by simp
  then show ?thesis by (auto simp: rne_def Let_def)
qed


lemma shift_down_zero: "a < 2 ^ 53 * b \<Longrightarrow> shift_down a b = 0"
  by (subst shift_down.simps) simp

lemma shift_up_zero: "2 ^ 52 * b \<le> a \<Longrightarrow> shift_up a b = 0"
  by (subst shift_up.simps) simp

lemma shift_up_nonpos: "a \<le> 0 \<Longrightarrow> shift_up a b = 0"
  by (subst shift_up.simps) simp

lemma shift_down_nonpos: "a \<le> 0 \<Longrightarrow> shift_down a b = 0"
  by (subst shift_down.simps) simp

lemma shift_up_reaches:
  "0 < a \<Longrightarrow> 0 < b \<Longrightarrow> 2 ^ 52 * b \<le> a * 2 ^ shift_up a b"
proof (induction a b rule: shift_up.induct)
  case (1 a b)
  show ?case
  proof (cases "a < 2 ^ 52 * b")
    case True
    then have s: "shift_up a b = Suc (shift_up (2 * a) b)"
      using "1.prems" by (subst shift_up.simps) simp
    have "2 ^ 52 * b \<le> (2 * a) * 2 ^ shift_up (2 * a) b"
      using "1.prems" True by (intro "1.IH") simp_all
    then show ?thesis unfolding s by (simp add: mult.assoc)
  next
    case False
    then have "shift_up a b = 0" by (intro shift_up_zero) simp
    then show ?thesis using False by simp
  qed
qed

lemma shift_down_reaches:
  "0 < a \<Longrightarrow> 0 < b \<Longrightarrow> 2 ^ 53 * b \<le> a \<Longrightarrow> 2 ^ 52 * (b * 2 ^ shift_down a b) \<le> a"
proof (induction a b rule: shift_down.induct)
  case (1 a b)
  have s: "shift_down a b = Suc (shift_down a (2 * b))"
    using "1.prems" by (subst shift_down.simps) simp
  show ?case
  proof (cases "2 ^ 53 * (2 * b) \<le> a")
    case True
    have "2 ^ 52 * ((2 * b) * 2 ^ shift_down a (2 * b)) \<le> a"
      using "1.prems" True by (intro "1.IH") simp_all
    then show ?thesis unfolding s by (simp add: mult.assoc)
  next
    case False
    then have "shift_down a (2 * b) = 0" by (intro shift_down_zero) simp
    then show ?thesis unfolding s using "1.prems"(3) by simp
  qed
qed

lemma int_truediv_whole:
  assumes "0 \<le> t" and "t < 2 ^ 53" and "0 < b"
  shows "int_truediv (t * b) b = t"
proof -
  have "t * b < 2 ^ 53 * b" using assms by simp
  then have j: "shift_down (t * b) b = 0" by (rule shift_down_zero)
  have e: "t * b * 2 ^ shift_up (t * b) b = (t * 2 ^ shift_up (t * b) b) * b"
    by (simp add: ac_simps)
  have "rne (t * b * 2 ^ shift_up (t * b) b) b = t * 2 ^ shift_up (t * b) b"
    unfolding e by (rule rne_exact [OF assms(3)])
  then show ?thesis by (simp add: int_truediv_def nearest_double_def Let_def j)
qed

lemma int_truediv_ge_one:
  assumes "0 < b" and "b \<le> a"
  shows "1 \<le> int_truediv a b"
proof (cases "a < 2 ^ 53 * b")
  case True
  then have j: "shift_down a b = 0" by (rule shift_down_zero)
  let ?k = "shift_up a b"
  have "2 ^ ?k * b \<le> a * 2 ^ ?k" using assms by (simp add: mult.commute)
  then have "2 ^ ?k \<le> rne (a * 2 ^ ?k) b" using assms(1) by (intro rne_lower)
  then have "(2 ^ ?k) div 2 ^ ?k \<le> rne (a * 2 ^ ?k) b div 2 ^ ?k"
    by (intro zdiv_mono1) simp_all
  then show ?thesis by (simp add: int_truediv_def nearest_double_def Let_def j)
next
  case False
  then have big: "2 ^ 53 * b \<le> a" by simp
  then have "2 ^ 52 * b \<le> a" using assms(1) by simp
  then have k: "shift_up a b = 0" by (rule shift_up_zero)
  let ?j = "shift_down a b"
  have pos: "0 < a" using assms by simp
  have "2 ^ 52 * (b * 2 ^ ?j) \<le> a" using pos assms(1) big by (rule shift_down_reaches)
  moreover have "1 * (b * 2 ^ ?j) \<le> 2 ^ 52 * (b * 2 ^ ?j)" using assms(1) by (intro mult_right_mono) simp_all
  ultimately have "1 * (b * 2 ^ ?j) \<le> a" by linarith
  then have "1 \<le> rne a (b * 2 ^ ?j)" using assms(1) by (intro rne_lower) simp_all
  moreover have "(1::int) \<le> 2 ^ ?j" by simp
  ultimately have "1 * 1 \<le> rne a (b * 2 ^ ?j) * 2 ^ ?j" by (intro mult_mono) simp_all
  then show ?thesis by (simp add: int_truediv_def nearest_double_def Let_def k)
qed

lemma int_truediv_lt_one:
  assumes "0 \<le> a" and "a < b" and "b \<le> 2 ^ 52"
  shows "int_truediv a b = 0"
proof (cases "a = 0")
  case True
  have "0 < b" using assms True by simp
  then show ?thesis using True
    by (simp add: int_truediv_def nearest_double_def Let_def shift_up_nonpos shift_down_nonpos rne_def)
next
  case False
  then have pos: "0 < a" "0 < b" using assms by simp_all
  have "1 * b \<le> 2 ^ 53 * b" using pos(2) by (intro mult_right_mono) simp_all
  then have "a < 2 ^ 53 * b" using assms(2) by simp
  then have j: "shift_down a b = 0" by (rule shift_down_zero)
  let ?k = "shift_up a b"
  have r: "2 ^ 52 * b \<le> a * 2 ^ ?k" using pos by (rule shift_up_reaches)
  have "a * 2 ^ ?k < b * 2 ^ ?k" using assms(2) by (intro mult_strict_right_mono) simp_all
  then have "2 ^ 52 * b < b * 2 ^ ?k" using r by linarith
  then have "2 ^ 52 * b < 2 ^ ?k * b" by (simp only: mult.commute [of b])
  then have "(2::int) ^ 52 < 2 ^ ?k" using pos(2) by (simp only: mult_less_cancel_right_pos)
  then have kb: "b \<le> 2 ^ ?k" using assms(3) by simp
  have "a + 1 \<le> b" using assms(2) by simp
  then have "(a + 1) * 2 ^ ?k \<le> b * 2 ^ ?k" by (intro mult_right_mono) simp_all
  then have "a * 2 ^ ?k + b \<le> b * 2 ^ ?k" using kb by (simp add: algebra_simps)
  then have "a * 2 ^ ?k \<le> (2 ^ ?k - 1) * b" by (simp add: algebra_simps)
  then have u: "rne (a * 2 ^ ?k) b \<le> 2 ^ ?k - 1" using pos(2) by (intro rne_upper)
  have "0 * b \<le> a * 2 ^ ?k" using pos by simp
  then have l: "0 \<le> rne (a * 2 ^ ?k) b" using pos(2) by (intro rne_lower)
  have "rne (a * 2 ^ ?k) b div 2 ^ ?k = 0" using u l by (intro div_pos_pos_trivial) simp_all
  then show ?thesis by (simp add: int_truediv_def nearest_double_def Let_def j)
qed


subsection \<open>Whole seconds\<close>

lemma int_total_seconds_whole:
  assumes "total_microseconds td = t * 1000000" and "- (2 ^ 53) < t" and "t < 2 ^ 53"
  shows "int_total_seconds td = t"
proof (cases "0 \<le> t")
  case True
  then have "int_truediv (t * 1000000) 1000000 = t"
    using assms(3) by (intro int_truediv_whole) simp_all
  then show ?thesis using True by (simp add: int_total_seconds_def assms(1) Let_def)
next
  case False
  then have n: "\<not> 0 \<le> t * 1000000" by simp
  have "int_truediv ((- t) * 1000000) 1000000 = - t"
    using False assms(2) by (intro int_truediv_whole) simp_all
  then show ?thesis using n by (simp add: int_total_seconds_def assms(1) Let_def)
qed

lemma int_total_seconds_hms:
  assumes "- (2 ^ 53) < h * 3600 + m * 60 + s" and "h * 3600 + m * 60 + s < 2 ^ 53"
  shows "int_total_seconds (timedelta_hms h m s) = h * 3600 + m * 60 + s"
proof -
  have "total_microseconds (timedelta_hms h m s) = (h * 3600 + m * 60 + s) * 1000000"
    by (simp add: total_microseconds_def timedelta_hms_def Let_def)
  then show ?thesis using assms by (rule int_total_seconds_whole)
qed

text \<open>
  A timedelta holds at most 999999999 days, which are fewer than \<open>2^53\<close> seconds.
\<close>

lemma storable_seconds:
  fixes t :: int
  assumes "0 \<le> t" and "t div 86400 \<le> 999999999"
  shows "t < 2 ^ 53"
proof -
  have "t = t div 86400 * 86400 + t mod 86400" by simp
  moreover have "t mod 86400 < 86400" by simp
  ultimately have "t < 999999999 * 86400 + 86400" using assms(2) by linarith
  then show ?thesis by simp
qed

lemma format_duration_unfold:
  "format_duration_for_schtasks td =
     format_zero_pad 2 (int_total_seconds td div 3600) @ '':'' @
     format_zero_pad 2 ((int_total_seconds td mod 3600) div 60)"
  by (simp add: format_duration_for_schtasks_def Let_def)

lemma hm_split:
  fixes h m :: int
  assumes "0 \<le> m" "m < 60"
  shows "(h * 3600 + m * 60) div 3600 = h" and "((h * 3600 + m * 60) mod 3600) div 60 = m"
proof -
  have b: "0 \<le> m * 60" "m * 60 < 3600" using assms by simp_all
  have "(m * 60 + h * 3600) div 3600 = h"
    using b by (simp add: div_pos_pos_trivial)
  then show "(h * 3600 + m * 60) div 3600 = h" by (simp add: add.commute)
  have "(m * 60 + h * 3600) mod 3600 = m * 60"
    using b by (simp add: mod_pos_pos_trivial)
  then have "(h * 3600 + m * 60) mod 3600 = m * 60" by (simp add: add.commute)
  then show "((h * 3600 + m * 60) mod 3600) div 60 = m" by simp
qed

lemma format_duration_hm:
  assumes "0 \<le> h" and "0 \<le> m" and "m < 60" and "days (timedelta_hms h m 0) \<le> 999999999"
  shows "format_duration_for_schtasks (timedelta_hms h m 0) =
           format_zero_pad 2 h @ '':'' @ format_zero_pad 2 m"
proof -
  have nn: "0 \<le> h * 3600 + m * 60 + 0" using assms(1,2) by simp
  have "(h * 3600 + m * 60 + 0) div 86400 \<le> 999999999"
    using assms(4) by (simp add: timedelta_hms_def Let_def)
  then have lt: "h * 3600 + m * 60 + 0 < 2 ^ 53" using nn by (intro storable_seconds)
  have gt: "- (2 ^ 53) < h * 3600 + m * 60 + 0" using nn by simp
  have ts: "int_total_seconds (timedelta_hms h m 0) = h * 3600 + m * 60"
    using int_total_seconds_hms [OF gt lt] by simp
  show ?thesis
    unfolding format_duration_unfold ts
    using hm_split [OF assms(2,3), of h] by simp
qed

subsection \<open>Decimal text\<close>

lemma str_nat_digit: "n < 10 \<Longrightarrow> str_nat n = [digit_char n]"
  by (simp add: str_nat.simps)

lemma str_nat_step: "10 \<le> n \<Longrightarrow> str_nat n = str_nat (n div 10) @ [digit_char (n mod 10)]"
  by (subst str_nat.simps) simp

lemma length_str_nat_pos: "Suc 0 \<le> length (str_nat n)"
  by (subst str_nat.simps) simp

lemma length_str_nat_ge2: "10 \<le> n \<Longrightarrow> 2 \<le> length (str_nat n)"
  using length_str_nat_pos [of "n div 10"] by (simp add: str_nat_step)

lemma length_str_nat_two: "10 \<le> n \<Longrightarrow> n < 100 \<Longrightarrow> length (str_nat n) = 2"
  by (simp add: str_nat_step str_nat_digit)

lemma length_zfill: "w \<le> length (zfill w s)"
  by (simp add: zfill_def)

lemma length_zfill_short: "length s \<le> w \<Longrightarrow> length (zfill w s) = w"
  by (simp add: zfill_def)

lemma length_pad2_below_100:
  assumes "0 \<le> x" "x < 100"
  shows "length (format_zero_pad 2 x) = 2"
proof (cases "nat x < 10")
  case True
  then show ?thesis using assms
    by (simp add: format_zero_pad_def str_nat_digit length_zfill_short)
next
  case False
  then have "length (str_nat (nat x)) = 2"
    using assms by (intro length_str_nat_two) auto
  then show ?thesis using assms
    by (simp add: format_zero_pad_def length_zfill_short)
qed

lemma length_pad2_nonneg: "0 \<le> x \<Longrightarrow> 2 \<le> length (format_zero_pad 2 x)"
  by (simp add: format_zero_pad_def length_zfill)

lemma pad2_no_padding: "10 \<le> x \<Longrightarrow> format_zero_pad 2 x = str_nat (nat x)"
  using length_str_nat_ge2 [of "nat x"] by (simp add: format_zero_pad_def zfill_def)

subsection \<open>Formatting a duration\<close>

text \<open>
  Claim C4. For a duration of \<open>h\<close> hours and \<open>m\<close> minutes with \<open>0 \<le> h\<close> and
  \<open>0 \<le> m < 60\<close>, that is for every such span a timedelta holds (up to 999999999
  days), \<open>format_duration_for_schtasks\<close> returns the hours and the minutes,
  each formatted with \<open>{:02}\<close>, joined by a colon. The minutes field has exactly two
  characters; the hours field has at least two and, from 10 hours on, is the plain
  decimal numeral, so it is not wrapped at 24. 3 hours give 03:00, 90 minutes give
  01:30, 30 hours give 30:00.
\<close>

theorem format_duration_for_schtasks_hours_minutes:
  assumes "0 \<le> h" and "0 \<le> m" and "m < 60"
    and "days (timedelta_hms h m 0) \<le> 999999999"
  shows "format_duration_for_schtasks (timedelta_hms h m 0) =
           format_zero_pad 2 h @ '':'' @ format_zero_pad 2 m
         \<and> length (format_zero_pad 2 m) = 2
         \<and> 2 \<le> length (format_zero_pad 2 h)
         \<and> (if h < 10 then format_zero_pad 2 h = [CHR ''0'', digit_char (nat h)]
             else format_zero_pad 2 h = str_nat (nat h))
         \<and> format_duration_for_schtasks (timedelta_hms 3 0 0) = ''03:00''
         \<and> format_duration_for_schtasks (timedelta_hms 0 90 0) = ''01:30''
         \<and> format_duration_for_schtasks (timedelta_hms 30 0 0) = ''30:00''"
proof -
  have a: "format_duration_for_schtasks (timedelta_hms h m 0) =
             format_zero_pad 2 h @ '':'' @ format_zero_pad 2 m"
    using assms by (rule format_duration_hm)
  have b: "length (format_zero_pad 2 m) = 2"
    using assms(2,3) by (intro length_pad2_below_100) auto
  have c: "2 \<le> length (format_zero_pad 2 h)"
    using assms(1) by (rule length_pad2_nonneg)
  have d: "h < 10 \<Longrightarrow> format_zero_pad 2 h = [CHR ''0'', digit_char (nat h)]"
    using assms(1) by (simp add: format_zero_pad_def str_nat_digit zfill_def)
  have e: "\<not> h < 10 \<Longrightarrow> format_zero_pad 2 h = str_nat (nat h)"
    by (intro pad2_no_padding) simp
  have x1: "format_duration_for_schtasks (timedelta_hms 3 0 0) = ''03:00''"
    by code_simp
  have x2: "format_duration_for_schtasks (timedelta_hms 0 90 0) = ''01:30''"
    by code_simp
  have x3: "format_duration_for_schtasks (timedelta_hms 30 0 0) = ''30:00''"
    by code_simp
  show ?thesis using a b c d e x1 x2 x3 by simp
qed

theorem format_duration_for_schtasks_hours_minutes_witness:
  "format_duration_for_schtasks (timedelta_hms 1 30 0) = ''01:30''
   \<and> format_duration_for_schtasks (timedelta_hms 100 5 0) = ''100:05''"
proof -
  have p1: "format_zero_pad 2 1 @ '':'' @ format_zero_pad 2 30 = ''01:30''" by code_simp
  have p2: "format_zero_pad 2 100 @ '':'' @ format_zero_pad 2 5 = ''100:05''" by code_simp
  have d1: "days (timedelta_hms 1 30 0) \<le> 999999999"
    by (simp add: timedelta_hms_def Let_def)
  have d2: "days (timedelta_hms 100 5 0) \<le> 999999999"
    by (simp add: timedelta_hms_def Let_def)
  note t1 = format_duration_for_schtasks_hours_minutes [of 1 30, OF _ _ _ d1, THEN conjunct1]
  note t2 = format_duration_for_schtasks_hours_minutes [of 100 5, OF _ _ _ d2, THEN conjunct1]
  have a1: "format_duration_for_schtasks (timedelta_hms 1 30 0) = ''01:30''"
    using t1 p1 by simp
  have a2: "format_duration_for_schtasks (timedelta_hms 100 5 0) = ''100:05''"
    using t2 p2 by simp
  show ?thesis using a1 a2 by simp
qed

subsection \<open>The lookup\<close>

lemma lookup_cmds: "snd (get_existing_task_details e n) = [query_cmd n]"
  by (simp add: get_existing_task_details_def Let_def)

lemma lookup_nonzero_exit:
  assumes "run_process e (query_cmd n) = Exited rc out err" and "rc \<noteq> 0"
  shows "get_existing_task_details e n = (Inr None, [query_cmd n])"
  using assms by (simp add: get_existing_task_details_def subprocess_run_def Let_def)

lemma lookup_not_started:
  assumes "run_process e (query_cmd n) = NotStarted m"
  shows "get_existing_task_details e n = (Inl (OSError m), [query_cmd n])"
  using assms by (simp add: get_existing_task_details_def subprocess_run_def Let_def)

lemma lookup_zero_exit:
  assumes "run_process e (query_cmd n) = Exited 0 out err"
  shows "get_existing_task_details e n =
           ((case extract_details (splitlines out) [] of
               Inl x \<Rightarrow> Inl x
             | Inr d \<Rightarrow> if d \<noteq> [] then Inr (Some d) else Inr None),
            [query_cmd n])"
  using assms by (simp add: get_existing_task_details_def subprocess_run_def Let_def)

lemma lookup_some_nonempty:
  assumes "fst (get_existing_task_details e n) = Inr (Some d)"
  shows "d \<noteq> []"
  using assms
  by (auto simp: get_existing_task_details_def Let_def
           split: sum.splits exn.splits if_splits prod.splits)

subsection \<open>The three ways through schedule\_task\<close>

lemma schedule_task_present:
  assumes "fst (get_existing_task_details e n) = Inr (Some d)"
  shows "schedule_task e n cp iv du = (Inr (exists_message n cp iv du d), [query_cmd n])"
proof -
  have ne: "d \<noteq> []" using assms by (rule lookup_some_nonempty)
  have "get_existing_task_details e n = (Inr (Some d), [query_cmd n])"
    using assms lookup_cmds [of e n] by (simp add: prod_eq_iff)
  then show ?thesis using ne by (simp add: schedule_task_def Let_def)
qed

lemma schedule_task_absent:
  assumes "fst (get_existing_task_details e n) = Inr None"
  shows "schedule_task e n cp iv du =
           (fst (schedule_try e n cp iv du), query_cmd n # snd (schedule_try e n cp iv du))"
proof -
  have "get_existing_task_details e n = (Inr None, [query_cmd n])"
    using assms lookup_cmds [of e n] by (simp add: prod_eq_iff)
  then show ?thesis by (simp add: schedule_task_def Let_def split: prod.splits)
qed

lemma schedule_task_lookup_raises:
  assumes "fst (get_existing_task_details e n) = Inl x"
  shows "schedule_task e n cp iv du = (Inl x, [query_cmd n])"
proof -
  have "get_existing_task_details e n = (Inl x, [query_cmd n])"
    using assms lookup_cmds [of e n] by (simp add: prod_eq_iff)
  then show ?thesis by (simp add: schedule_task_def)
qed

subsection \<open>The try block\<close>

lemma parse_iso_duration_timedelta:
  "isodate_parse_duration e du = IsoTimedelta td \<Longrightarrow>
   parse_iso_duration (isodate_parse_duration e) du = Inr td"
  by (simp add: parse_iso_duration_def)

lemma schedule_try_parse_error:
  assumes "parse_iso_duration (isodate_parse_duration e) du = Inl (ValueError m)"
  shows "schedule_try e n cp iv du = (Inr m, [])"
  using assms by (simp add: schedule_try_def schedule_except_def)

lemma schedule_try_cmds:
  assumes "isodate_parse_duration e du = IsoTimedelta td"
  shows "snd (schedule_try e n cp iv du) =
           [create_cmd n cp (strftime_HM (add_minutes (datetime_now e) 1)) iv
              (format_duration_for_schtasks td)]"
  using assms
  by (simp add: schedule_try_def parse_iso_duration_def Let_def split: sum.splits prod.splits)

lemma schedule_try_exited:
  assumes "isodate_parse_duration e du = IsoTimedelta td"
    and "run_process e (create_cmd n cp (strftime_HM (add_minutes (datetime_now e) 1)) iv
              (format_duration_for_schtasks td)) = Exited rc out err"
  shows "fst (schedule_try e n cp iv du) =
           (if rc = 0 then Inr (success_notice n @ out) else Inr (failure_notice n @ err))"
  using assms
  by (simp add: schedule_try_def parse_iso_duration_def Let_def subprocess_run_def
        schedule_except_def)

lemma schedule_try_not_started:
  assumes "isodate_parse_duration e du = IsoTimedelta td"
    and "run_process e (create_cmd n cp (strftime_HM (add_minutes (datetime_now e) 1)) iv
              (format_duration_for_schtasks td)) = NotStarted m"
  shows "fst (schedule_try e n cp iv du) = Inl (OSError m)"
  using assms
  by (simp add: schedule_try_def parse_iso_duration_def Let_def subprocess_run_def
        schedule_except_def)

subsection \<open>Text that cannot contain a separator character\<close>

lemma sublist_across_char:
  assumes "c \<notin> set p" and "sublist p (xs @ c # ys)"
  shows "sublist p xs \<or> sublist p ys"
proof -
  from assms(2) consider "sublist p xs" | "sublist p (c # ys)"
    | x1 x2 where "p = x1 @ x2" "suffix x1 xs" "prefix x2 (c # ys)"
    by (auto simp: sublist_append)
  then show ?thesis
  proof cases
    case 1
    then show ?thesis by simp
  next
    case 2
    then have "prefix p (c # ys) \<or> sublist p ys" by (simp add: sublist_Cons_right)
    moreover have "prefix p (c # ys) \<Longrightarrow> p = []"
      using assms(1) by (cases p) auto
    ultimately show ?thesis by auto
  next
    case 3
    have "x2 = []" using 3(1,3) assms(1) by (cases x2) auto
    then have "suffix p xs" using 3(1,2) by simp
    then show ?thesis by auto
  qed
qed

lemma failure_notice_has_no_success_text:
  assumes "\<not> sublist ''scheduled successfully'' n"
    and "\<not> sublist ''scheduled successfully'' err"
  shows "\<not> sublist ''scheduled successfully'' (failure_notice n @ err)"
proof
  let ?k = "''scheduled successfully''"
  assume a: "sublist ?k (failure_notice n @ err)"
  have k1: "sq \<notin> set ?k" by (simp add: sq_def)
  have k2: "CHR '':'' \<notin> set ?k" by simp
  have k3: "nl \<notin> set ?k" by (simp add: nl_def)
  have shape: "failure_notice n @ err =
      ''Error scheduling task '' @ sq # (n @ sq # ([] @ CHR '':'' # ([] @ nl # err)))"
    by (simp add: failure_notice_def)
  have h: "\<not> sublist ?k ''Error scheduling task ''"
    by code_simp
  from a have "sublist ?k ''Error scheduling task '' \<or> sublist ?k (n @ sq # ([] @ CHR '':'' # ([] @ nl # err)))"
    unfolding shape by (rule sublist_across_char [OF k1])
  with h have "sublist ?k (n @ sq # ([] @ CHR '':'' # ([] @ nl # err)))" by simp
  then have "sublist ?k n \<or> sublist ?k ([] @ CHR '':'' # ([] @ nl # err))"
    by (rule sublist_across_char [OF k1])
  with assms(1) have "sublist ?k ([] @ CHR '':'' # ([] @ nl # err))" by simp
  then have "sublist ?k [] \<or> sublist ?k ([] @ nl # err)"
    by (rule sublist_across_char [OF k2])
  then have "sublist ?k ([] @ nl # err)" by simp
  then have "sublist ?k [] \<or> sublist ?k err"
    by (rule sublist_across_char [OF k3])
  with assms(2) show False by simp
qed

lemma failure_notice_not_success:
  "\<not> prefix (success_notice n') (failure_notice n @ err)"
  by (simp add: success_notice_def failure_notice_def)

subsection \<open>Parsing the duration\<close>

lemma nearest_double_whole:
  assumes "0 \<le> n" and "n < 2 ^ 53"
  shows "nearest_double n 1 = (n * 2 ^ shift_up n 1, shift_up n 1)"
proof -
  have "n < 2 ^ 53 * 1" using assms(2) by simp
  then have j: "shift_down n 1 = 0" by (rule shift_down_zero)
  have "rne ((n * 2 ^ shift_up n 1) * 1) 1 = n * 2 ^ shift_up n 1"
    by (rule rne_exact) simp
  then show ?thesis by (simp add: nearest_double_def Let_def j)
qed

lemma accum_whole:
  assumes "0 \<le> n" and "n < 2 ^ 53"
  shows "accum (x, lo) (factor, float_of_decimal (n, 0)) = (x + n * factor, lo)"
  by (simp add: accum_def float_of_decimal_def nearest_double_whole [OF assms])

lemma round_leftover_none: "round_leftover (x, (0, 0)) = x"
  by (simp add: round_leftover_def)

text \<open>
  Numerals without a fraction need no rounding: their span is the exact sum.
\<close>

lemma timedelta_new_whole:
  assumes "group_value (g_seconds g) = (s, 0)" and "0 \<le> s" and "s < 2 ^ 53"
    and "group_value (g_minutes g) = (mi, 0)" and "0 \<le> mi" and "mi < 2 ^ 53"
    and "group_value (g_hours g) = (h, 0)" and "0 \<le> h" and "h < 2 ^ 53"
    and "group_value (g_days g) = (d, 0)" and "0 \<le> d" and "d < 2 ^ 53"
    and "group_value (g_weeks g) = (w, 0)" and "0 \<le> w" and "w < 2 ^ 53"
  shows "timedelta_new g =
           microseconds_to_delta
             (s * 1000000 + mi * 60000000 + h * 3600000000 + d * 86400000000 + w * 604800000000)"
proof -
  have 1: "accum (0, (0, 0)) (1000000, float_of_decimal (s, 0)) = (0 + s * 1000000, (0, 0))"
    using assms(2,3) by (rule accum_whole)
  have 2: "accum (0 + s * 1000000, (0, 0)) (60000000, float_of_decimal (mi, 0)) =
             (0 + s * 1000000 + mi * 60000000, (0, 0))"
    using assms(5,6) by (rule accum_whole)
  have 3: "accum (0 + s * 1000000 + mi * 60000000, (0, 0)) (3600000000, float_of_decimal (h, 0)) =
             (0 + s * 1000000 + mi * 60000000 + h * 3600000000, (0, 0))"
    using assms(8,9) by (rule accum_whole)
  have 4: "accum (0 + s * 1000000 + mi * 60000000 + h * 3600000000, (0, 0))
             (86400000000, float_of_decimal (d, 0)) =
             (0 + s * 1000000 + mi * 60000000 + h * 3600000000 + d * 86400000000, (0, 0))"
    using assms(11,12) by (rule accum_whole)
  have 5: "accum (0 + s * 1000000 + mi * 60000000 + h * 3600000000 + d * 86400000000, (0, 0))
             (604800000000, float_of_decimal (w, 0)) =
             (0 + s * 1000000 + mi * 60000000 + h * 3600000000 + d * 86400000000 + w * 604800000000,
              (0, 0))"
    using assms(14,15) by (rule accum_whole)
  have "foldl accum (0, (0, 0))
          [(1000000, float_of_decimal (s, 0)), (60000000, float_of_decimal (mi, 0)),
           (3600000000, float_of_decimal (h, 0)), (86400000000, float_of_decimal (d, 0)),
           (604800000000, float_of_decimal (w, 0))] =
        (0 + s * 1000000 + mi * 60000000 + h * 3600000000 + d * 86400000000 + w * 604800000000,
         (0, 0))"
    by (simp only: foldl.simps 1 2 3 4 5)
  then show ?thesis
    unfolding timedelta_new_def assms(1,4,7,10,13)
    by (simp only: round_leftover_none add_0)
qed

lemma match_three_hours: "match_period ''3 hours'' = None"
  by code_simp



lemma three_hours_span:
  "signed_timedelta
     \<lparr>g_sign = None, g_years = None, g_months = None, g_weeks = None,
      g_days = None, g_hours = Some (3, 0), g_minutes = None, g_seconds = None\<rparr> =
     Some \<lparr>days = 0, seconds = 10800, microseconds = 0\<rparr>"
proof -
  let ?g = "\<lparr>g_sign = None, g_years = None, g_months = None, g_weeks = None,
      g_days = None, g_hours = Some (3, 0), g_minutes = None, g_seconds = None\<rparr>"
  have "timedelta_new ?g = microseconds_to_delta
          (0 * 1000000 + 0 * 60000000 + 3 * 3600000000 + 0 * 86400000000 + 0 * 604800000000)"
    by (rule timedelta_new_whole) (simp_all add: group_value_def)
  then have "timedelta_new ?g = Some \<lparr>days = 0, seconds = 10800, microseconds = 0\<rparr>"
    by (simp add: microseconds_to_delta_def)
  then show ?thesis by (simp add: signed_timedelta_def)
qed




subsection \<open>Sample surroundings, evaluated\<close>

lemma sample_env_fields:
  "run_process (sample_env q c) cmd = (if cmd = query_cmd ''Backup'' then q else c)"
  "isodate_parse_duration (sample_env q c) = isodate_sample"
  "datetime_now (sample_env q c) = half_past_noon"
  by (simp_all add: sample_env_def)

lemma sample_absent:
  "fst (get_existing_task_details (sample_env not_found c) ''Backup'') = Inr None"
  by (simp add: lookup_nonzero_exit [where rc = 1 and out = "[]"
        and err = "''ERROR: The system cannot find the file specified.''"]
        sample_env_fields not_found_def)

lemma sample_start_time: "strftime_HM (add_minutes half_past_noon 1) = ''12:01''"
  by code_simp

lemma sample_du: "format_duration_for_schtasks (timedelta_hms 3 0 0) = ''03:00''"
  by code_simp

lemma create_is_not_query: "create_cmd n cp st iv du \<noteq> query_cmd n'"
  by (simp add: create_cmd_def query_cmd_def)

subsection \<open>A duration that does not parse\<close>

text \<open>
  Claim C8. When the lookup reports the name absent and the duration string fails to
  parse, \<open>schedule_task\<close> returns the text of the parse error as its message: an
  ordinary returned string that starts with \<open>Error parsing duration: \<close>, not a raised
  exception. The query is the only command run; no creation command is dispatched.
\<close>

theorem schedule_task_returns_parse_error:
  assumes "fst (get_existing_task_details e n) = Inr None"
    and "parse_iso_duration (isodate_parse_duration e) du = Inl x"
  shows "\<exists>msg. x = ValueError msg
           \<and> prefix ''Error parsing duration: '' msg
           \<and> schedule_task e n cp iv du = (Inr msg, [query_cmd n])"
proof -
  from assms(2) obtain m where x: "x = ValueError (''Error parsing duration: '' @ m)"
    by (cases "isodate_parse_duration e du") (auto simp: parse_iso_duration_def)
  have "schedule_try e n cp iv du = (Inr (''Error parsing duration: '' @ m), [])"
    using assms(2) x by (intro schedule_try_parse_error) simp
  then have "schedule_task e n cp iv du = (Inr (''Error parsing duration: '' @ m), [query_cmd n])"
    using schedule_task_absent [OF assms(1), of cp iv du] by simp
  with x show ?thesis by (intro exI [of _ "''Error parsing duration: '' @ m"]) simp
qed

theorem schedule_task_returns_parse_error_witness:
  "schedule_task (sample_env not_found created) ''Backup'' backup_bat 30 ''3 hours'' =
     (Inr (''Error parsing duration: Unable to parse duration string '' @ [sq] @ ''3 hours'' @ [sq]),
      [[''schtasks'', ''/query'', ''/tn'', ''Backup'', ''/fo'', ''LIST'', ''/v'']])"
proof -
  let ?m = "''Error parsing duration: Unable to parse duration string '' @ [sq] @ ''3 hours'' @ [sq]"
  have p: "parse_iso_duration (isodate_parse_duration (sample_env not_found created)) ''3 hours'' =
             Inl (ValueError ?m)"
    by (simp add: sample_env_fields parse_iso_duration_def isodate_sample_def)
  from schedule_task_returns_parse_error [OF sample_absent p, of backup_bat 30]
  show ?thesis by (simp add: query_cmd_def)
qed

lemma sample_create_run:
  "run_process (sample_env q c) (create_cmd n cp st iv du) = c"
  by (simp add: sample_env_fields create_is_not_query)

lemma sample_isodate_3h:
  "isodate_parse_duration (sample_env q c) ''PT3H'' = IsoTimedelta (timedelta_hms 3 0 0)"
  by (simp add: sample_env_fields isodate_sample_def)

subsection \<open>The outcome of the creation command\<close>

text \<open>
  Claim C7. Once the creation command has been dispatched and has exited: on exit
  code zero \<open>schedule_task\<close> returns the success notice followed by the tool's
  standard output; on any other exit code it returns the failure notice followed by
  the tool's standard error. The failure message does not begin with a success
  notice, and it contains the words of the success notice only if the task name or
  the tool's standard error contains them. In both cases the result is a returned
  string: no exception leaves \<open>schedule_task\<close>.
\<close>

theorem schedule_task_reports_exit:
  assumes "fst (get_existing_task_details e n) = Inr None"
    and "isodate_parse_duration e du = IsoTimedelta td"
    and "run_process e
           [''schtasks'', ''/create'', ''/tn'', n, ''/sc'', ''DAILY'', ''/tr'', cp,
            ''/st'', strftime_HM (add_minutes (datetime_now e) 1), ''/ri'', str_int iv,
            ''/du'', format_duration_for_schtasks td, ''/f''] = Exited rc out err"
  shows "(rc = 0 \<longrightarrow>
            fst (schedule_task e n cp iv du) =
              Inr (''Task '' @ [sq] @ n @ [sq] @ '' scheduled successfully.'' @ [nl] @ out))
       \<and> (rc \<noteq> 0 \<longrightarrow>
            fst (schedule_task e n cp iv du) =
              Inr (''Error scheduling task '' @ [sq] @ n @ [sq] @ '':'' @ [nl] @ err)
            \<and> (\<forall>n'. \<not> prefix (success_notice n') (''Error scheduling task '' @ [sq] @ n @ [sq] @ '':'' @ [nl] @ err))
            \<and> (\<not> sublist ''scheduled successfully'' n \<and> \<not> sublist ''scheduled successfully'' err \<longrightarrow>
                 \<not> sublist ''scheduled successfully''
                     (''Error scheduling task '' @ [sq] @ n @ [sq] @ '':'' @ [nl] @ err)))
       \<and> (\<exists>msg. fst (schedule_task e n cp iv du) = Inr msg)"
proof -
  have run: "run_process e (create_cmd n cp (strftime_HM (add_minutes (datetime_now e) 1)) iv
               (format_duration_for_schtasks td)) = Exited rc out err"
    using assms(3) by (simp add: create_cmd_def)
  have r: "fst (schedule_task e n cp iv du) =
             (if rc = 0 then Inr (success_notice n @ out) else Inr (failure_notice n @ err))"
    using schedule_task_absent [OF assms(1), of cp iv du]
          schedule_try_exited [OF assms(2) run] by simp
  have f: "''Error scheduling task '' @ [sq] @ n @ [sq] @ '':'' @ [nl] @ err = failure_notice n @ err"
    by (simp add: failure_notice_def)
  have s: "''Task '' @ [sq] @ n @ [sq] @ '' scheduled successfully.'' @ [nl] @ out = success_notice n @ out"
    by (simp add: success_notice_def)
  have np: "\<forall>n'. \<not> prefix (success_notice n') (failure_notice n @ err)"
    by (simp add: failure_notice_not_success)
  have ns: "\<not> sublist ''scheduled successfully'' n \<and> \<not> sublist ''scheduled successfully'' err \<longrightarrow>
            \<not> sublist ''scheduled successfully'' (failure_notice n @ err)"
    using failure_notice_has_no_success_text [of n err] by blast
  show ?thesis
    unfolding f s using r np ns by auto
qed

theorem schedule_task_reports_exit_witness:
  "fst (schedule_task (sample_env not_found created) ''Backup'' backup_bat 30 ''PT3H'') =
     Inr (''Task '' @ [sq] @ ''Backup'' @ [sq] @ '' scheduled successfully.'' @ [nl] @
          ''SUCCESS: The scheduled task has successfully been created.'')
   \<and> fst (schedule_task (sample_env not_found denied) ''Backup'' backup_bat 30 ''PT3H'') =
     Inr (''Error scheduling task '' @ [sq] @ ''Backup'' @ [sq] @ '':'' @ [nl] @
          ''ERROR: Access is denied.'')
   \<and> \<not> sublist ''scheduled successfully''
         (''Error scheduling task '' @ [sq] @ ''Backup'' @ [sq] @ '':'' @ [nl] @
          ''ERROR: Access is denied.'')"
proof -
  have c1: "run_process (sample_env not_found created)
           [''schtasks'', ''/create'', ''/tn'', ''Backup'', ''/sc'', ''DAILY'', ''/tr'', backup_bat,
            ''/st'', strftime_HM (add_minutes (datetime_now (sample_env not_found created)) 1),
            ''/ri'', str_int 30,
            ''/du'', format_duration_for_schtasks (timedelta_hms 3 0 0), ''/f''] =
           Exited 0 ''SUCCESS: The scheduled task has successfully been created.'' []"
    using sample_create_run [of not_found created] by (simp add: create_cmd_def created_def)
  have c2: "run_process (sample_env not_found denied)
           [''schtasks'', ''/create'', ''/tn'', ''Backup'', ''/sc'', ''DAILY'', ''/tr'', backup_bat,
            ''/st'', strftime_HM (add_minutes (datetime_now (sample_env not_found denied)) 1),
            ''/ri'', str_int 30,
            ''/du'', format_duration_for_schtasks (timedelta_hms 3 0 0), ''/f''] =
           Exited 1 [] ''ERROR: Access is denied.''"
    using sample_create_run [of not_found denied] by (simp add: create_cmd_def denied_def)
  have k1: "\<not> sublist ''scheduled successfully'' ''Backup''" by code_simp
  have k2: "\<not> sublist ''scheduled successfully'' ''ERROR: Access is denied.''" by code_simp
  show ?thesis
    using schedule_task_reports_exit [OF sample_absent sample_isodate_3h c1]
          schedule_task_reports_exit [OF sample_absent sample_isodate_3h c2] k1 k2
    by simp
qed

subsection \<open>The start time\<close>

lemma digit_char_0: "digit_char 0 = CHR ''0''"
  by code_simp

lemma zfill2_str_nat:
  assumes "n < 100"
  shows "zfill 2 (str_nat n) = [digit_char (n div 10), digit_char (n mod 10)]"
proof (cases "n < 10")
  case True
  then show ?thesis by (simp add: str_nat_digit zfill_def digit_char_0)
next
  case False
  then have "n div 10 < 10" using assms by simp
  then show ?thesis using False by (simp add: str_nat_step str_nat_digit zfill_def)
qed

lemma add_minute_fields:
  "hour (add_minutes d (Suc 0)) = (Suc (hour d * 60 + minute d) mod 1440) div 60"
  "minute (add_minutes d (Suc 0)) = Suc (hour d * 60 + minute d) mod 60"
  by (simp_all add: add_minutes_def Let_def)

lemma add_minute_valid: "hour (add_minutes d 1) < 24 \<and> minute (add_minutes d 1) < 60"
proof -
  have "Suc (hour d * 60 + minute d) mod 1440 < 1440" by simp
  then have "(Suc (hour d * 60 + minute d) mod 1440) div 60 < 24"
    by (simp add: div_less_iff_less_mult)
  then show ?thesis by (simp add: add_minute_fields)
qed

lemma strftime_HM_digits:
  assumes "hour d < 24" and "minute d < 60"
  shows "strftime_HM d =
           [digit_char (hour d div 10), digit_char (hour d mod 10), CHR '':'',
            digit_char (minute d div 10), digit_char (minute d mod 10)]"
  using assms by (simp add: strftime_HM_def zfill2_str_nat)

lemma minute_of_day_next:
  fixes h m :: nat
  assumes "h < 24" and "m < 60"
  shows "(Suc (h * 60 + m) mod 1440) div 60 * 60 + Suc (h * 60 + m) mod 60 =
           (if h = 23 \<and> m = 59 then 0 else Suc (h * 60 + m))"
proof (cases "h = 23 \<and> m = 59")
  case True
  then show ?thesis by simp
next
  case False
  then have "Suc (h * 60 + m) < 1440" using assms by arith
  then have a: "Suc (h * 60 + m) mod 1440 = Suc (h * 60 + m)" by simp
  have b: "Suc (h * 60 + m) div 60 * 60 + Suc (h * 60 + m) mod 60 = Suc (h * 60 + m)"
    by (rule div_mult_mod_eq)
  show ?thesis unfolding a if_not_P [OF False] by (rule b)
qed

lemma microseconds_until_start:
  assumes "valid_datetime now"
  shows "microseconds_until now (hour (add_minutes now 1)) (minute (add_minutes now 1)) =
           60000000 - (int (second now) * 1000000 + int (microsecond now))"
proof -
  define h m s u where "h = hour now" and "m = minute now" and "s = second now"
    and "u = microsecond now"
  have b: "h < 24" "m < 60" "s < 60" "u < 1000000"
    using assms by (simp_all add: valid_datetime_def h_def m_def s_def u_def)
  define k where "k = (Suc (h * 60 + m) mod 1440) div 60 * 60 + Suc (h * 60 + m) mod 60"
  have k: "k = (if h = 23 \<and> m = 59 then 0 else Suc (h * 60 + m))"
    unfolding k_def using b(1,2) by (rule minute_of_day_next)
  have hm: "hour (add_minutes now 1) * 60 + minute (add_minutes now 1) = k"
    unfolding k_def h_def m_def by (simp add: add_minute_fields)
  have "(int (hour (add_minutes now 1)) * 60 + int (minute (add_minutes now 1))) = int k"
    unfolding hm [symmetric] by simp
  then have target:
    "(int (hour (add_minutes now 1)) * 60 + int (minute (add_minutes now 1))) * 60 * 1000000
       = int k * 60000000"
    by simp
  have tod: "time_of_day_us now = int (h * 60 + m) * 60000000 + (int s * 1000000 + int u)"
    by (simp add: time_of_day_us_def h_def m_def s_def u_def algebra_simps)
  have small: "int s * 1000000 + int u < 60000000" using b(3,4) by simp
  have nonneg: "0 \<le> int s * 1000000 + int u" by simp
  define r where "r = int s * 1000000 + int u"
  have r: "0 \<le> r" "r < 60000000" using small nonneg by (simp_all add: r_def)
  have goal: "(let target = int k * 60000000; t = int (h * 60 + m) * 60000000 + r
               in if t < target then target - t else target + 86400000000 - t) = 60000000 - r"
  proof (cases "h = 23 \<and> m = 59")
    case True
    then have "k = 0" "h * 60 + m = 1439" using k by simp_all
    then show ?thesis using r by (simp add: Let_def)
  next
    case False
    then have "int k = int (h * 60 + m) + 1" using k by simp
    then show ?thesis using r by (simp add: Let_def algebra_simps)
  qed
  show ?thesis
    unfolding microseconds_until_def target tod
    using goal by (simp add: r_def s_def u_def)
qed

lemma schedule_task_dispatch:
  assumes "fst (get_existing_task_details e n) = Inr None"
    and "isodate_parse_duration e du = IsoTimedelta td"
  shows "snd (schedule_task e n cp iv du) =
           [query_cmd n,
            create_cmd n cp (strftime_HM (add_minutes (datetime_now e) 1)) iv
              (format_duration_for_schtasks td)]"
  using schedule_task_absent [OF assms(1), of cp iv du] schedule_try_cmds [OF assms(2), of n cp iv]
  by simp

lemma sample_clock_valid: "valid_datetime half_past_noon"
  by (simp add: valid_datetime_def half_past_noon_def)

lemma sample_until: "microseconds_until half_past_noon 12 1 = 30000000"
  by (simp add: microseconds_until_def time_of_day_us_def half_past_noon_def)

lemma sample_start_time_Suc: "strftime_HM (add_minutes half_past_noon (Suc 0)) = ''12:01''"
  using sample_start_time by simp

lemma sample_dispatch:
  "snd (schedule_task (sample_env not_found c) ''Backup'' backup_bat 30 ''PT3H'') =
     [[''schtasks'', ''/query'', ''/tn'', ''Backup'', ''/fo'', ''LIST'', ''/v''],
      [''schtasks'', ''/create'', ''/tn'', ''Backup'', ''/sc'', ''DAILY'', ''/tr'', backup_bat,
       ''/st'', ''12:01'', ''/ri'', ''30'', ''/du'', ''03:00'', ''/f'']]"
proof -
  have i: "str_int 30 = ''30''" by code_simp
  show ?thesis
    using schedule_task_dispatch [OF sample_absent sample_isodate_3h, of c backup_bat 30]
    by (simp add: sample_env_fields sample_start_time_Suc sample_du query_cmd_def create_cmd_def i)
qed

subsection \<open>The creation command\<close>

text \<open>
  Claim C6. When the lookup reports the name absent and the duration parses,
  \<open>schedule_task\<close> runs two commands: the query, then \<open>schtasks /create\<close> with exactly
  \<open>/tn\<close> the task name, \<open>/sc DAILY\<close>, \<open>/tr\<close> the command path, \<open>/st\<close> the start time,
  \<open>/ri\<close> the interval as a decimal numeral, \<open>/du\<close> the formatted duration, and \<open>/f\<close>.
  For Backup, \<open>C:\scripts\backup.bat\<close>, 30 and PT3H the command ends
  \<open>/ri 30 /du 03:00 /f\<close>.
\<close>

theorem schedule_task_creation_arguments:
  assumes "fst (get_existing_task_details e n) = Inr None"
    and "isodate_parse_duration e du = IsoTimedelta td"
  shows "snd (schedule_task e n cp iv du) =
           [[''schtasks'', ''/query'', ''/tn'', n, ''/fo'', ''LIST'', ''/v''],
            [''schtasks'', ''/create'', ''/tn'', n, ''/sc'', ''DAILY'', ''/tr'', cp,
             ''/st'', strftime_HM (add_minutes (datetime_now e) 1),
             ''/ri'', str_int iv,
             ''/du'', format_duration_for_schtasks td, ''/f'']]"
  using schedule_task_dispatch [OF assms, of cp iv]
  by (simp add: query_cmd_def create_cmd_def)

theorem schedule_task_creation_arguments_witness:
  "snd (schedule_task (sample_env not_found created) ''Backup'' backup_bat 30 ''PT3H'') =
     [[''schtasks'', ''/query'', ''/tn'', ''Backup'', ''/fo'', ''LIST'', ''/v''],
      [''schtasks'', ''/create'', ''/tn'', ''Backup'', ''/sc'', ''DAILY'', ''/tr'', backup_bat,
       ''/st'', ''12:01'', ''/ri'', ''30'', ''/du'', ''03:00'', ''/f'']]"
proof -
  have i: "str_int 30 = ''30''" by code_simp
  show ?thesis
    using schedule_task_creation_arguments [OF sample_absent sample_isodate_3h, of created backup_bat 30]
    by (simp add: sample_env_fields sample_start_time_Suc sample_du i)
qed

subsection \<open>When the task starts\<close>

text \<open>
  Claim C3, as stated: the start time falls between 1 and 2 minutes after the clock
  reading. At 12:00:30 the creation command carries \<open>/st 12:01\<close>, and the clock shows
  12:01:00 thirty seconds later.
\<close>

theorem start_time_one_to_two_minutes_counterexample:
  "snd (schedule_task (sample_env not_found created) ''Backup'' backup_bat 30 ''PT3H'') ! 1 ! 9 = ''12:01''
   \<and> hour half_past_noon = 12 \<and> minute half_past_noon = 0 \<and> second half_past_noon = 30
   \<and> microseconds_until half_past_noon 12 1 = 30000000
   \<and> \<not> (60000000 \<le> microseconds_until half_past_noon 12 1
          \<and> microseconds_until half_past_noon 12 1 \<le> 120000000)"
proof -
  have f: "hour half_past_noon = 12 \<and> minute half_past_noon = 0 \<and> second half_past_noon = 30"
    by (simp add: half_past_noon_def)
  have st: "snd (schedule_task (sample_env not_found created) ''Backup'' backup_bat 30 ''PT3H'') ! 1 ! 9 = ''12:01''"
    unfolding sample_dispatch by simp
  show ?thesis using f st sample_until by simp
qed

text \<open>
  Claim C3, amended. When the lookup reports the name absent and the duration parses,
  the creation command is run exactly once, after the query. Its start time is the
  clock reading plus one minute with the seconds dropped, written as two digits of the
  hour (0 to 23), a colon and two digits of the minute. The clock next shows that
  time more than 0 and at most 60 seconds after the reading: exactly 60 seconds less
  the seconds and microseconds of the reading.
\<close>

theorem schedule_task_start_time:
  assumes "fst (get_existing_task_details e n) = Inr None"
    and "isodate_parse_duration e du = IsoTimedelta td"
    and "valid_datetime (datetime_now e)"
  shows "snd (schedule_task e n cp iv du) =
           [query_cmd n,
            create_cmd n cp (strftime_HM (add_minutes (datetime_now e) 1)) iv
              (format_duration_for_schtasks td)]
       \<and> length (filter (\<lambda>c. take 2 c = [''schtasks'', ''/create'']) (snd (schedule_task e n cp iv du))) = 1
       \<and> create_cmd n cp (strftime_HM (add_minutes (datetime_now e) 1)) iv
              (format_duration_for_schtasks td) ! 9 = strftime_HM (add_minutes (datetime_now e) 1)
       \<and> hour (add_minutes (datetime_now e) 1) < 24
       \<and> minute (add_minutes (datetime_now e) 1) < 60
       \<and> strftime_HM (add_minutes (datetime_now e) 1) =
           [digit_char (hour (add_minutes (datetime_now e) 1) div 10),
            digit_char (hour (add_minutes (datetime_now e) 1) mod 10), CHR '':'',
            digit_char (minute (add_minutes (datetime_now e) 1) div 10),
            digit_char (minute (add_minutes (datetime_now e) 1) mod 10)]
       \<and> microseconds_until (datetime_now e) (hour (add_minutes (datetime_now e) 1))
            (minute (add_minutes (datetime_now e) 1)) =
           60000000 - (int (second (datetime_now e)) * 1000000 + int (microsecond (datetime_now e)))
       \<and> 0 < microseconds_until (datetime_now e) (hour (add_minutes (datetime_now e) 1))
            (minute (add_minutes (datetime_now e) 1))
       \<and> microseconds_until (datetime_now e) (hour (add_minutes (datetime_now e) 1))
            (minute (add_minutes (datetime_now e) 1)) \<le> 60000000"
proof -
  let ?st = "add_minutes (datetime_now e) 1"
  have cmds: "snd (schedule_task e n cp iv du) =
           [query_cmd n, create_cmd n cp (strftime_HM ?st) iv (format_duration_for_schtasks td)]"
    using assms(1,2) by (rule schedule_task_dispatch)
  have once: "length (filter (\<lambda>c. take 2 c = [''schtasks'', ''/create''])
                 (snd (schedule_task e n cp iv du))) = 1"
    unfolding cmds by (simp add: query_cmd_def create_cmd_def)
  have nth: "create_cmd n cp (strftime_HM ?st) iv (format_duration_for_schtasks td) ! 9 = strftime_HM ?st"
    by (simp add: create_cmd_def)
  have v: "hour ?st < 24 \<and> minute ?st < 60" by (rule add_minute_valid)
  have dg: "strftime_HM ?st = [digit_char (hour ?st div 10), digit_char (hour ?st mod 10), CHR '':'',
            digit_char (minute ?st div 10), digit_char (minute ?st mod 10)]"
    using v by (intro strftime_HM_digits) simp_all
  have u: "microseconds_until (datetime_now e) (hour ?st) (minute ?st) =
           60000000 - (int (second (datetime_now e)) * 1000000 + int (microsecond (datetime_now e)))"
    using assms(3) by (rule microseconds_until_start)
  have "second (datetime_now e) < 60" "microsecond (datetime_now e) < 1000000"
    using assms(3) by (simp_all add: valid_datetime_def)
  then have rng: "0 < microseconds_until (datetime_now e) (hour ?st) (minute ?st)"
      "microseconds_until (datetime_now e) (hour ?st) (minute ?st) \<le> 60000000"
    unfolding u by simp_all
  show ?thesis using cmds once nth v dg u rng by blast
qed

theorem schedule_task_start_time_witness:
  "snd (schedule_task (sample_env not_found created) ''Backup'' backup_bat 30 ''PT3H'') =
     [query_cmd ''Backup'', create_cmd ''Backup'' backup_bat ''12:01'' 30 ''03:00'']
   \<and> microseconds_until half_past_noon 12 1 = 60000000 - (30 * 1000000 + 0)
   \<and> 0 < microseconds_until half_past_noon 12 1
   \<and> microseconds_until half_past_noon 12 1 \<le> 60000000"
proof -
  have v: "valid_datetime (datetime_now (sample_env not_found created))"
    by (simp add: sample_env_fields sample_clock_valid)
  have h: "hour (add_minutes half_past_noon 1) = 12" "minute (add_minutes half_past_noon 1) = 1"
    by (simp_all add: add_minutes_def half_past_noon_def)
  have s: "second half_past_noon = 30" "microsecond half_past_noon = 0"
    by (simp_all add: half_past_noon_def)
  note t = schedule_task_start_time [OF sample_absent sample_isodate_3h v, of backup_bat 30,
      unfolded sample_env_fields sample_start_time sample_du h s]
  from t show ?thesis by simp
qed

subsection \<open>A query that fails\<close>

text \<open>
  Claim C2, as stated: any failure of the query tool, the tool being missing included,
  makes the lookup report the task absent. When the tool cannot be started,
  \<open>subprocess.run\<close> raises an OSError, which \<open>get_existing_task_details\<close> does not catch:
  the lookup does not return, and neither does \<open>schedule_task\<close>.
\<close>

theorem lookup_tool_missing_counterexample:
  "get_existing_task_details
     (sample_env (NotStarted ''[WinError 2] The system cannot find the file specified'') created)
     ''Backup'' =
     (Inl (OSError ''[WinError 2] The system cannot find the file specified''),
      [[''schtasks'', ''/query'', ''/tn'', ''Backup'', ''/fo'', ''LIST'', ''/v'']])
   \<and> fst (get_existing_task_details
     (sample_env (NotStarted ''[WinError 2] The system cannot find the file specified'') created)
     ''Backup'') \<noteq> Inr None
   \<and> fst (schedule_task
     (sample_env (NotStarted ''[WinError 2] The system cannot find the file specified'') created)
     ''Backup'' backup_bat 30 ''PT3H'') =
     Inl (OSError ''[WinError 2] The system cannot find the file specified'')"
proof -
  let ?m = "''[WinError 2] The system cannot find the file specified''"
  have r: "run_process (sample_env (NotStarted ?m) created) (query_cmd ''Backup'') = NotStarted ?m"
    by (simp add: sample_env_fields)
  have a: "get_existing_task_details (sample_env (NotStarted ?m) created) ''Backup'' =
             (Inl (OSError ?m), [query_cmd ''Backup''])"
    using r by (rule lookup_not_started)
  then have b: "fst (get_existing_task_details (sample_env (NotStarted ?m) created) ''Backup'') =
             Inl (OSError ?m)"
    by simp
  have c: "schedule_task (sample_env (NotStarted ?m) created) ''Backup'' backup_bat 30 ''PT3H'' =
             (Inl (OSError ?m), [query_cmd ''Backup''])"
    using b by (rule schedule_task_lookup_raises)
  show ?thesis using a c by (simp add: query_cmd_def)
qed

text \<open>
  Claim C2, amended. Whenever the query tool runs and exits with a non-zero code, the
  lookup reports the task absent, whatever the code and the tool's output: the cause
  of the failure leaves no trace in the result. When the tool cannot be started at
  all, the OSError leaves the lookup and \<open>schedule_task\<close> uncaught, after the query as the
  only command.
\<close>

theorem lookup_failure_is_absence:
  "(run_process e [''schtasks'', ''/query'', ''/tn'', n, ''/fo'', ''LIST'', ''/v''] = Exited rc out err
      \<and> rc \<noteq> 0 \<longrightarrow>
      get_existing_task_details e n =
        (Inr None, [[''schtasks'', ''/query'', ''/tn'', n, ''/fo'', ''LIST'', ''/v'']]))
   \<and> (run_process e [''schtasks'', ''/query'', ''/tn'', n, ''/fo'', ''LIST'', ''/v''] = NotStarted m \<longrightarrow>
      get_existing_task_details e n =
        (Inl (OSError m), [[''schtasks'', ''/query'', ''/tn'', n, ''/fo'', ''LIST'', ''/v'']])
      \<and> schedule_task e n cp iv du =
        (Inl (OSError m), [[''schtasks'', ''/query'', ''/tn'', n, ''/fo'', ''LIST'', ''/v'']]))"
proof -
  have q: "[''schtasks'', ''/query'', ''/tn'', n, ''/fo'', ''LIST'', ''/v''] = query_cmd n"
    by (simp add: query_cmd_def)
  have a: "run_process e (query_cmd n) = Exited rc out err \<and> rc \<noteq> 0 \<longrightarrow>
           get_existing_task_details e n = (Inr None, [query_cmd n])"
    using lookup_nonzero_exit [of e n rc out err] by blast
  have b: "run_process e (query_cmd n) = NotStarted m \<longrightarrow>
           get_existing_task_details e n = (Inl (OSError m), [query_cmd n])"
    using lookup_not_started [of e n m] by blast
  have c: "run_process e (query_cmd n) = NotStarted m \<longrightarrow>
           schedule_task e n cp iv du = (Inl (OSError m), [query_cmd n])"
  proof
    assume "run_process e (query_cmd n) = NotStarted m"
    then have "fst (get_existing_task_details e n) = Inl (OSError m)"
      using b by simp
    then show "schedule_task e n cp iv du = (Inl (OSError m), [query_cmd n])"
      by (rule schedule_task_lookup_raises)
  qed
  show ?thesis unfolding q using a b c by blast
qed

theorem lookup_failure_is_absence_witness:
  "get_existing_task_details (sample_env not_found created) ''Backup'' =
     (Inr None, [[''schtasks'', ''/query'', ''/tn'', ''Backup'', ''/fo'', ''LIST'', ''/v'']])
   \<and> get_existing_task_details (sample_env denied created) ''Backup'' =
     (Inr None, [[''schtasks'', ''/query'', ''/tn'', ''Backup'', ''/fo'', ''LIST'', ''/v'']])
   \<and> schedule_task (sample_env (NotStarted ''No such file or directory'') created)
        ''Backup'' backup_bat 30 ''PT3H'' =
     (Inl (OSError ''No such file or directory''),
      [[''schtasks'', ''/query'', ''/tn'', ''Backup'', ''/fo'', ''LIST'', ''/v'']])"
proof -
  have q: "[''schtasks'', ''/query'', ''/tn'', ''Backup'', ''/fo'', ''LIST'', ''/v''] = query_cmd ''Backup''"
    by (simp add: query_cmd_def)
  have r1: "run_process (sample_env not_found created) (query_cmd ''Backup'') =
              Exited 1 [] ''ERROR: The system cannot find the file specified.''"
    by (simp add: sample_env_fields not_found_def)
  have r2: "run_process (sample_env denied created) (query_cmd ''Backup'') =
              Exited 1 [] ''ERROR: Access is denied.''"
    by (simp add: sample_env_fields denied_def)
  have r3: "run_process (sample_env (NotStarted ''No such file or directory'') created)
              (query_cmd ''Backup'') = NotStarted ''No such file or directory''"
    by (simp add: sample_env_fields)
  show ?thesis
    unfolding q
    using lookup_failure_is_absence [of "sample_env not_found created" "''Backup''" 1 "[]"
            "''ERROR: The system cannot find the file specified.''", unfolded q] r1
          lookup_failure_is_absence [of "sample_env denied created" "''Backup''" 1 "[]"
            "''ERROR: Access is denied.''", unfolded q] r2
          lookup_failure_is_absence [of "sample_env (NotStarted ''No such file or directory'') created"
            "''Backup''" _ _ _ "''No such file or directory''" backup_bat 30 "''PT3H''", unfolded q] r3
    by simp
qed

subsection \<open>A listing without a recognised line\<close>

lemma details_line_unrecognised:
  assumes "\<not> startswith line ''Task Name:''" and "\<not> startswith line ''Task To Run:''"
    and "\<not> startswith line ''Repeat: Every''" and "\<not> startswith line ''Duration:''"
  shows "details_line line d = Inr d"
  using assms by (simp add: details_line_def)

lemma extract_details_unrecognised:
  assumes "\<forall>line \<in> set ls. \<not> startswith line ''Task Name:'' \<and> \<not> startswith line ''Task To Run:''
              \<and> \<not> startswith line ''Repeat: Every'' \<and> \<not> startswith line ''Duration:''"
  shows "extract_details ls d = Inr d"
  using assms by (induction ls arbitrary: d) (simp_all add: details_line_unrecognised)

text \<open>
  Claim C9. When the query exits with code zero and no line of its output starts with
  one of the four keys the code looks for (\<open>Task Name:\<close>, \<open>Task To Run:\<close>,
  \<open>Repeat: Every\<close>, \<open>Duration:\<close>), the lookup reports the task absent, and
  \<open>schedule_task\<close> goes on as for a task that does not exist: it runs its \<open>try\<close> block,
  which dispatches the creation command as soon as the duration parses.
\<close>

theorem unrecognised_listing_is_absent:
  assumes "run_process e [''schtasks'', ''/query'', ''/tn'', n, ''/fo'', ''LIST'', ''/v''] = Exited 0 out err"
    and "\<forall>line \<in> set (splitlines out).
            \<not> startswith line ''Task Name:'' \<and> \<not> startswith line ''Task To Run:''
          \<and> \<not> startswith line ''Repeat: Every'' \<and> \<not> startswith line ''Duration:''"
  shows "get_existing_task_details e n =
           (Inr None, [[''schtasks'', ''/query'', ''/tn'', n, ''/fo'', ''LIST'', ''/v'']])
       \<and> schedule_task e n cp iv du =
           (fst (schedule_try e n cp iv du),
            [''schtasks'', ''/query'', ''/tn'', n, ''/fo'', ''LIST'', ''/v''] # snd (schedule_try e n cp iv du))
       \<and> (\<forall>td. isodate_parse_duration e du = IsoTimedelta td \<longrightarrow>
            snd (schedule_task e n cp iv du) =
              [[''schtasks'', ''/query'', ''/tn'', n, ''/fo'', ''LIST'', ''/v''],
               [''schtasks'', ''/create'', ''/tn'', n, ''/sc'', ''DAILY'', ''/tr'', cp,
                ''/st'', strftime_HM (add_minutes (datetime_now e) 1),
                ''/ri'', str_int iv,
                ''/du'', format_duration_for_schtasks td, ''/f'']])"
proof -
  have q: "[''schtasks'', ''/query'', ''/tn'', n, ''/fo'', ''LIST'', ''/v''] = query_cmd n"
    by (simp add: query_cmd_def)
  have x: "extract_details (splitlines out) [] = Inr []"
    using assms(2) by (rule extract_details_unrecognised)
  have a: "get_existing_task_details e n = (Inr None, [query_cmd n])"
    using lookup_zero_exit [OF assms(1) [unfolded q]] x by simp
  then have ab: "fst (get_existing_task_details e n) = Inr None" by simp
  have b: "schedule_task e n cp iv du =
             (fst (schedule_try e n cp iv du), query_cmd n # snd (schedule_try e n cp iv du))"
    using ab by (rule schedule_task_absent)
  have c: "\<forall>td. isodate_parse_duration e du = IsoTimedelta td \<longrightarrow>
            snd (schedule_task e n cp iv du) =
              [query_cmd n,
               [''schtasks'', ''/create'', ''/tn'', n, ''/sc'', ''DAILY'', ''/tr'', cp,
                ''/st'', strftime_HM (add_minutes (datetime_now e) 1),
                ''/ri'', str_int iv,
                ''/du'', format_duration_for_schtasks td, ''/f'']]"
    using schedule_task_dispatch [OF ab, of du _ cp iv] by (simp add: create_cmd_def)
  show ?thesis unfolding q using a b c by blast
qed

theorem unrecognised_listing_is_absent_witness:
  "get_existing_task_details (sample_env unrecognised_listing created) ''Backup'' =
     (Inr None, [[''schtasks'', ''/query'', ''/tn'', ''Backup'', ''/fo'', ''LIST'', ''/v'']])
   \<and> snd (schedule_task (sample_env unrecognised_listing created) ''Backup'' backup_bat 30 ''PT3H'') =
     [[''schtasks'', ''/query'', ''/tn'', ''Backup'', ''/fo'', ''LIST'', ''/v''],
      [''schtasks'', ''/create'', ''/tn'', ''Backup'', ''/sc'', ''DAILY'', ''/tr'', backup_bat,
       ''/st'', ''12:01'', ''/ri'', ''30'', ''/du'', ''03:00'', ''/f'']]"
proof -
  let ?out = "''TaskName: Backup'' @ [nl] @ ''Status: Ready'' @ [nl]"
  have r: "run_process (sample_env unrecognised_listing created)
             [''schtasks'', ''/query'', ''/tn'', ''Backup'', ''/fo'', ''LIST'', ''/v''] = Exited 0 ?out []"
    by (simp add: sample_env_fields unrecognised_listing_def query_cmd_def)
  have l: "splitlines ?out = [''TaskName: Backup'', ''Status: Ready'']"
    by code_simp
  have u: "\<forall>line \<in> set (splitlines ?out).
            \<not> startswith line ''Task Name:'' \<and> \<not> startswith line ''Task To Run:''
          \<and> \<not> startswith line ''Repeat: Every'' \<and> \<not> startswith line ''Duration:''"
    unfolding l by (simp add: startswith_def)
  have i: "str_int 30 = ''30''" by code_simp
  note t = unrecognised_listing_is_absent [OF r u, of backup_bat 30 "''PT3H''"]
  have d: "isodate_parse_duration (sample_env unrecognised_listing created) ''PT3H'' =
             IsoTimedelta (timedelta_hms 3 0 0)"
    by (rule sample_isodate_3h)
  note t1 = t [THEN conjunct1]
  note t3 = t [THEN conjunct2, THEN conjunct2, rule_format, OF d]
  from t1 t3 show ?thesis
    by (simp add: sample_env_fields sample_start_time_Suc sample_du i)
qed

subsection \<open>A task that already exists\<close>

lemma sample_lookup_name_only:
  "get_existing_task_details (sample_env name_only_listing c) ''Backup'' =
     (Inr (Some [(''Task Name'', ''Backup'')]), [query_cmd ''Backup''])"
proof -
  have r: "run_process (sample_env name_only_listing c) (query_cmd ''Backup'') =
             Exited 0 (''Task Name: Backup'' @ [nl]) []"
    by (simp add: sample_env_fields name_only_listing_def)
  have x: "extract_details (splitlines (''Task Name: Backup'' @ [nl])) [] = Inr [(''Task Name'', ''Backup'')]"
    by code_simp
  show ?thesis using lookup_zero_exit [OF r] x by simp
qed

lemma sample_lookup_listing:
  "get_existing_task_details (sample_env listing c) ''Backup'' =
     (Inr (Some [(''Task Name'', ''Backup''), (''Command Path'', ''C:/old/job.bat''),
                 (''Interval'', ''45''), (''Duration'', ''08:00'')]), [query_cmd ''Backup''])"
proof -
  let ?out = "''Task Name: Backup'' @ [nl] @ ''Task To Run: C:/old/job.bat'' @ [nl] @
      ''Repeat: Every 45 Minute(s)'' @ [nl] @ ''Duration: 08:00'' @ [nl]"
  have r: "run_process (sample_env listing c) (query_cmd ''Backup'') = Exited 0 ?out []"
    by (simp add: sample_env_fields listing_def)
  have x: "extract_details (splitlines ?out) [] =
             Inr [(''Task Name'', ''Backup''), (''Command Path'', ''C:/old/job.bat''),
                  (''Interval'', ''45''), (''Duration'', ''08:00'')]"
    by code_simp
  show ?thesis using lookup_zero_exit [OF r] x by simp
qed

text \<open>
  Claim C1, as stated: the message embeds the snapshot's command path, interval and
  duration, not the caller's. A listing with only a \<open>Task Name:\<close> line makes the
  lookup report the task present, and the message then carries the caller's command
  path, interval and duration.
\<close>

theorem exists_message_caller_values_counterexample:
  "fst (get_existing_task_details (sample_env name_only_listing created) ''Backup'') =
     Inr (Some [(''Task Name'', ''Backup'')])
   \<and> schedule_task (sample_env name_only_listing created) ''Backup'' backup_bat 30 ''PT3H'' =
     (Inr (''Task '' @ [sq] @ ''Backup'' @ [sq] @ '' already exists with the following details:'' @ [nl] @
           ''Task Name: Backup'' @ [nl] @
           ''Command Path: '' @ backup_bat @ [nl] @
           ''Interval (minutes): 30'' @ [nl] @
           ''Duration (ISO 8601 format): PT3H''),
      [[''schtasks'', ''/query'', ''/tn'', ''Backup'', ''/fo'', ''LIST'', ''/v'']])"
proof -
  have a: "fst (get_existing_task_details (sample_env name_only_listing created) ''Backup'') =
     Inr (Some [(''Task Name'', ''Backup'')])"
    by (simp add: sample_lookup_name_only)
  have i: "str_int 30 = ''30''" by code_simp
  have m: "exists_message ''Backup'' backup_bat 30 ''PT3H'' [(''Task Name'', ''Backup'')] =
           ''Task '' @ [sq] @ ''Backup'' @ [sq] @ '' already exists with the following details:'' @ [nl] @
           ''Task Name: Backup'' @ [nl] @
           ''Command Path: '' @ backup_bat @ [nl] @
           ''Interval (minutes): 30'' @ [nl] @
           ''Duration (ISO 8601 format): PT3H''"
    by (simp add: exists_message_def dict_get_def i)
  show ?thesis
    using a schedule_task_present [OF a, of backup_bat 30 "''PT3H''"] m
    by (simp add: query_cmd_def)
qed

text \<open>
  Claim C1, amended. When the lookup reports the name present, \<open>schedule_task\<close> returns
  the already-exists message and runs the query only: no creation command. For each
  of task name, command path, interval and duration the message carries the value the
  snapshot records, and the caller's value where the snapshot records none. When the
  snapshot records command path, interval and duration, the result is the same
  whatever the caller supplied for them.
\<close>

theorem schedule_task_existing:
  assumes "fst (get_existing_task_details e n) = Inr (Some d)"
  shows "schedule_task e n cp iv du =
           (Inr (''Task '' @ [sq] @ n @ [sq] @ '' already exists with the following details:'' @ [nl] @
                 ''Task Name: '' @ (case map_of d ''Task Name'' of Some v \<Rightarrow> v | None \<Rightarrow> n) @ [nl] @
                 ''Command Path: '' @ (case map_of d ''Command Path'' of Some v \<Rightarrow> v | None \<Rightarrow> cp) @ [nl] @
                 ''Interval (minutes): '' @ (case map_of d ''Interval'' of Some v \<Rightarrow> v | None \<Rightarrow> str_int iv) @ [nl] @
                 ''Duration (ISO 8601 format): '' @ (case map_of d ''Duration'' of Some v \<Rightarrow> v | None \<Rightarrow> du)),
            [[''schtasks'', ''/query'', ''/tn'', n, ''/fo'', ''LIST'', ''/v'']])
       \<and> (map_of d ''Command Path'' \<noteq> None \<and> map_of d ''Interval'' \<noteq> None
            \<and> map_of d ''Duration'' \<noteq> None \<longrightarrow>
            (\<forall>cp' iv' du'. schedule_task e n cp' iv' du' = schedule_task e n cp iv du))"
proof -
  have p: "\<And>cp iv du. schedule_task e n cp iv du = (Inr (exists_message n cp iv du d), [query_cmd n])"
    using assms by (rule schedule_task_present)
  have a: "schedule_task e n cp iv du =
           (Inr (''Task '' @ [sq] @ n @ [sq] @ '' already exists with the following details:'' @ [nl] @
                 ''Task Name: '' @ (case map_of d ''Task Name'' of Some v \<Rightarrow> v | None \<Rightarrow> n) @ [nl] @
                 ''Command Path: '' @ (case map_of d ''Command Path'' of Some v \<Rightarrow> v | None \<Rightarrow> cp) @ [nl] @
                 ''Interval (minutes): '' @ (case map_of d ''Interval'' of Some v \<Rightarrow> v | None \<Rightarrow> str_int iv) @ [nl] @
                 ''Duration (ISO 8601 format): '' @ (case map_of d ''Duration'' of Some v \<Rightarrow> v | None \<Rightarrow> du)),
            [[''schtasks'', ''/query'', ''/tn'', n, ''/fo'', ''LIST'', ''/v'']])"
    unfolding p by (simp add: exists_message_def dict_get_def query_cmd_def)
  have b: "map_of d ''Command Path'' \<noteq> None \<and> map_of d ''Interval'' \<noteq> None
            \<and> map_of d ''Duration'' \<noteq> None \<longrightarrow>
            (\<forall>cp' iv' du'. schedule_task e n cp' iv' du' = schedule_task e n cp iv du)"
    unfolding p by (auto simp: exists_message_def dict_get_def)
  show ?thesis using a b by blast
qed

theorem schedule_task_existing_witness:
  "schedule_task (sample_env listing created) ''Backup'' backup_bat 30 ''PT3H'' =
     (Inr (''Task '' @ [sq] @ ''Backup'' @ [sq] @ '' already exists with the following details:'' @ [nl] @
           ''Task Name: Backup'' @ [nl] @
           ''Command Path: C:/old/job.bat'' @ [nl] @
           ''Interval (minutes): 45'' @ [nl] @
           ''Duration (ISO 8601 format): 08:00''),
      [[''schtasks'', ''/query'', ''/tn'', ''Backup'', ''/fo'', ''LIST'', ''/v'']])
   \<and> schedule_task (sample_env listing created) ''Backup'' ''D:/other.bat'' 5 ''PT1H'' =
     schedule_task (sample_env listing created) ''Backup'' backup_bat 30 ''PT3H''"
proof -
  let ?d = "[(''Task Name'', ''Backup''), (''Command Path'', ''C:/old/job.bat''),
             (''Interval'', ''45''), (''Duration'', ''08:00'')]"
  have a: "fst (get_existing_task_details (sample_env listing created) ''Backup'') = Inr (Some ?d)"
    by (simp add: sample_lookup_listing)
  note t = schedule_task_existing [OF a, of backup_bat 30 "''PT3H''"]
  have k: "map_of ?d ''Command Path'' \<noteq> None \<and> map_of ?d ''Interval'' \<noteq> None
            \<and> map_of ?d ''Duration'' \<noteq> None"
    by simp
  note t1 = t [THEN conjunct1]
  note t2 = t [THEN conjunct2, rule_format, OF k, of "''D:/other.bat''" 5 "''PT1H''"]
  from t1 t2 show ?thesis by simp
qed

subsection \<open>Spans that are zero or negative\<close>

lemma int_total_seconds_negative:
  assumes "total_microseconds td \<le> - 1000000"
  shows "int_total_seconds td \<le> - 1"
proof -
  define us where "us = total_microseconds td"
  have "1000000 \<le> - us" using assms by (simp add: us_def)
  then have "1 \<le> int_truediv (- us) 1000000" by (intro int_truediv_ge_one) simp_all
  moreover have "\<not> 0 \<le> us" using assms by (simp add: us_def)
  ultimately show ?thesis by (simp add: int_total_seconds_def Let_def us_def [symmetric])
qed

lemma int_total_seconds_small:
  assumes "- 1000000 < total_microseconds td" and "total_microseconds td < 1000000"
  shows "int_total_seconds td = 0"
proof -
  define us where "us = total_microseconds td"
  have b: "- 1000000 < us" "us < 1000000" using assms by (simp_all add: us_def)
  show ?thesis
  proof (cases "0 \<le> us")
    case True
    then have "int_truediv us 1000000 = 0" using b by (intro int_truediv_lt_one) simp_all
    then show ?thesis using True by (simp add: int_total_seconds_def Let_def us_def [symmetric])
  next
    case False
    then have "int_truediv (- us) 1000000 = 0" using b by (intro int_truediv_lt_one) simp_all
    then show ?thesis using False by (simp add: int_total_seconds_def Let_def us_def [symmetric])
  qed
qed

lemma format_negative_hours:
  assumes "int_total_seconds td \<le> - 1"
  shows "\<exists>rest. format_duration_for_schtasks td = CHR ''-'' # rest"
proof -
  have "int_total_seconds td div 3600 < 0" using assms by (simp add: div_neg_pos_less0)
  then show ?thesis by (simp add: format_duration_unfold format_zero_pad_def)
qed

lemma format_zero_seconds:
  assumes "int_total_seconds td = 0"
  shows "format_duration_for_schtasks td = ''00:00''"
proof -
  have z: "format_zero_pad 2 0 = ''00''" by code_simp
  show ?thesis by (simp add: format_duration_unfold assms z)
qed


text \<open>
  Claim C10, as stated: every negative span formats with an hours field that is not
  a zero-padded pair of digits. A span of minus half a second is negative, and it
  formats as 00:00: its seconds truncate to zero.
\<close>

theorem negative_span_hours_counterexample:
  "isodate_sample ''-PT0.5S'' = IsoTimedelta minus_half_second
   \<and> total_microseconds minus_half_second = - 500000
   \<and> total_microseconds minus_half_second < 0
   \<and> format_duration_for_schtasks minus_half_second = ''00:00''"
proof -
  have a: "isodate_sample ''-PT0.5S'' = IsoTimedelta minus_half_second"
    by (simp add: isodate_sample_def)
  have b: "total_microseconds minus_half_second = - 500000"
    by (simp add: total_microseconds_def minus_half_second_def)
  have c: "format_duration_for_schtasks minus_half_second = ''00:00''"
    by (rule format_zero_seconds) (rule int_total_seconds_small, simp_all add: b)
  show ?thesis using a b c by simp
qed

text \<open>
  Claim C10, amended. Whatever span the duration string parses to, zero and negative
  spans included, \<open>parse_iso_duration\<close> succeeds and, the name being absent,
  \<open>schedule_task\<close> dispatches the creation command with \<open>/du\<close> the formatted span: there
  is no check that the span is positive. A span of minus one second or less formats
  with an hours field that begins with a minus sign; a span strictly between minus
  one second and one second formats as 00:00. The empty span gives 00:00, minus one
  hour gives -1:00.
\<close>

theorem schedule_task_any_span:
  assumes "fst (get_existing_task_details e n) = Inr None"
    and "isodate_parse_duration e du = IsoTimedelta td"
  shows "parse_iso_duration (isodate_parse_duration e) du = Inr td
       \<and> snd (schedule_task e n cp iv du) =
           [[''schtasks'', ''/query'', ''/tn'', n, ''/fo'', ''LIST'', ''/v''],
            [''schtasks'', ''/create'', ''/tn'', n, ''/sc'', ''DAILY'', ''/tr'', cp,
             ''/st'', strftime_HM (add_minutes (datetime_now e) 1),
             ''/ri'', str_int iv,
             ''/du'', format_duration_for_schtasks td, ''/f'']]
       \<and> (total_microseconds td \<le> - 1000000 \<longrightarrow>
            (\<exists>rest. format_duration_for_schtasks td = CHR ''-'' # rest))
       \<and> (- 1000000 < total_microseconds td \<and> total_microseconds td < 1000000 \<longrightarrow>
            format_duration_for_schtasks td = ''00:00'')
       \<and> format_duration_for_schtasks (timedelta_hms 0 0 0) = ''00:00''
       \<and> format_duration_for_schtasks (timedelta_hms (- 1) 0 0) = ''-1:00''"
proof -
  have a: "parse_iso_duration (isodate_parse_duration e) du = Inr td"
    using assms(2) by (rule parse_iso_duration_timedelta)
  have b: "snd (schedule_task e n cp iv du) =
           [[''schtasks'', ''/query'', ''/tn'', n, ''/fo'', ''LIST'', ''/v''],
            [''schtasks'', ''/create'', ''/tn'', n, ''/sc'', ''DAILY'', ''/tr'', cp,
             ''/st'', strftime_HM (add_minutes (datetime_now e) 1),
             ''/ri'', str_int iv,
             ''/du'', format_duration_for_schtasks td, ''/f'']]"
    using schedule_task_dispatch [OF assms, of cp iv] by (simp add: query_cmd_def create_cmd_def)
  have c: "total_microseconds td \<le> - 1000000 \<longrightarrow>
            (\<exists>rest. format_duration_for_schtasks td = CHR ''-'' # rest)"
    using format_negative_hours [OF int_total_seconds_negative] by blast
  have d: "- 1000000 < total_microseconds td \<and> total_microseconds td < 1000000 \<longrightarrow>
            format_duration_for_schtasks td = ''00:00''"
    using format_zero_seconds [OF int_total_seconds_small] by blast
  have x1: "format_duration_for_schtasks (timedelta_hms 0 0 0) = ''00:00''" by code_simp
  have x2: "format_duration_for_schtasks (timedelta_hms (- 1) 0 0) = ''-1:00''" by code_simp
  show ?thesis using a b c d x1 x2 by blast
qed

theorem schedule_task_any_span_witness:
  "snd (schedule_task (sample_env not_found created) ''Backup'' backup_bat 30 ''PT0S'') =
     [[''schtasks'', ''/query'', ''/tn'', ''Backup'', ''/fo'', ''LIST'', ''/v''],
      [''schtasks'', ''/create'', ''/tn'', ''Backup'', ''/sc'', ''DAILY'', ''/tr'', backup_bat,
       ''/st'', ''12:01'', ''/ri'', ''30'', ''/du'', ''00:00'', ''/f'']]
   \<and> snd (schedule_task (sample_env not_found created) ''Backup'' backup_bat 30 ''-PT1H'') =
     [[''schtasks'', ''/query'', ''/tn'', ''Backup'', ''/fo'', ''LIST'', ''/v''],
      [''schtasks'', ''/create'', ''/tn'', ''Backup'', ''/sc'', ''DAILY'', ''/tr'', backup_bat,
       ''/st'', ''12:01'', ''/ri'', ''30'', ''/du'', ''-1:00'', ''/f'']]"
proof -
  have p0: "isodate_parse_duration (sample_env not_found created) ''PT0S'' =
              IsoTimedelta (timedelta_hms 0 0 0)"
    by (simp add: sample_env_fields isodate_sample_def)
  have p1: "isodate_parse_duration (sample_env not_found created) ''-PT1H'' =
              IsoTimedelta (timedelta_hms (- 1) 0 0)"
    by (simp add: sample_env_fields isodate_sample_def)
  have i: "str_int 30 = ''30''" by code_simp
  note t0 = schedule_task_any_span [OF sample_absent p0, of backup_bat 30]
  note t1 = schedule_task_any_span [OF sample_absent p1, of backup_bat 30]
  note a0 = t0 [THEN conjunct2, THEN conjunct1]
  note a1 = t1 [THEN conjunct2, THEN conjunct1]
  note f0 = t0 [THEN conjunct2, THEN conjunct2, THEN conjunct2, THEN conjunct2, THEN conjunct1]
  note f1 = t1 [THEN conjunct2, THEN conjunct2, THEN conjunct2, THEN conjunct2, THEN conjunct2]
  show ?thesis
    unfolding a0 a1 f0 f1
    by (simp add: sample_env_fields sample_start_time_Suc i)
qed

subsection \<open>Where the double rounds\<close>

text \<open>
  From \<open>2^34\<close> seconds on, a span with 999999 microseconds is nearer to the next
  whole second than to any other double, so \<open>int\<close> sees the next second; at \<open>2^33\<close>
  seconds it still sees the second below.
\<close>

lemma int_total_seconds_rounds_up:
  "int_total_seconds \<lparr>days = 200000, seconds = 0, microseconds = 999999\<rparr> = 17280000001
   \<and> int_total_seconds \<lparr>days = - 200001, seconds = 86399, microseconds = 1\<rparr> = - 17280000001
   \<and> int_total_seconds \<lparr>days = 0, seconds = 8589934592, microseconds = 999999\<rparr> = 8589934592"
  by code_simp

text \<open>The overflow is that of a span beyond 999999999 days, or below their negative.\<close>

lemma microseconds_to_delta_None_iff:
  "microseconds_to_delta x = None \<longleftrightarrow>
     x < - 999999999 * 86400000000 \<or> 1000000000 * 86400000000 \<le> x"
proof -
  define q r where "q = x div 86400000000" and "r = x mod 86400000000"
  have x: "x = q * 86400000000 + r" by (simp add: q_def r_def)
  have r: "0 \<le> r" "r < 86400000000" by (simp_all add: r_def)
  have "(q < - 999999999 \<or> 999999999 < q) \<longleftrightarrow>
        (x < - 999999999 * 86400000000 \<or> 1000000000 * 86400000000 \<le> x)"
    unfolding x using r by arith
  then show ?thesis
    by (simp add: microseconds_to_delta_def Let_def q_def [symmetric])
qed

text \<open>
  What the library returns on the texts of the worked examples. \<open>PT\<close>, with no
  component at all, matches the pattern and is the zero span.
\<close>

lemma match_pt:
  "match_period ''PT'' =
     Some \<lparr>g_sign = None, g_years = None, g_months = None, g_weeks = None,
           g_days = None, g_hours = None, g_minutes = None, g_seconds = None\<rparr>"
  by code_simp

lemma no_groups_span:
  "signed_timedelta
     \<lparr>g_sign = None, g_years = None, g_months = None, g_weeks = None,
      g_days = None, g_hours = None, g_minutes = None, g_seconds = None\<rparr> =
     Some \<lparr>days = 0, seconds = 0, microseconds = 0\<rparr>"
proof -
  let ?g = "\<lparr>g_sign = None, g_years = None, g_months = None, g_weeks = None,
      g_days = None, g_hours = None, g_minutes = None, g_seconds = None\<rparr>"
  have "timedelta_new ?g = microseconds_to_delta
          (0 * 1000000 + 0 * 60000000 + 0 * 3600000000 + 0 * 86400000000 + 0 * 604800000000)"
    by (rule timedelta_new_whole) (simp_all add: group_value_def)
  then have "timedelta_new ?g = Some \<lparr>days = 0, seconds = 0, microseconds = 0\<rparr>"
    by (simp add: microseconds_to_delta_def)
  then show ?thesis by (simp add: signed_timedelta_def)
qed

lemma parse_duration_pt:
  "parse_duration lib ''PT'' = IsoTimedelta \<lparr>days = 0, seconds = 0, microseconds = 0\<rparr>"
  by (simp add: parse_duration_def match_pt no_groups_span calendar_def group_value_def)

lemma parse_duration_three_hours:
  "parse_duration lib ''PT3H'' = IsoTimedelta \<lparr>days = 0, seconds = 10800, microseconds = 0\<rparr>"
proof -
  have m: "match_period ''PT3H'' =
     Some \<lparr>g_sign = None, g_years = None, g_months = None, g_weeks = None,
           g_days = None, g_hours = Some (3, 0), g_minutes = None, g_seconds = None\<rparr>"
    by code_simp
  show ?thesis
    by (simp add: parse_duration_def m three_hours_span calendar_def group_value_def)
qed

lemma parse_duration_zero_seconds:
  "parse_duration lib ''PT0S'' = IsoTimedelta \<lparr>days = 0, seconds = 0, microseconds = 0\<rparr>"
proof -
  let ?g = "\<lparr>g_sign = None, g_years = None, g_months = None, g_weeks = None,
           g_days = None, g_hours = None, g_minutes = None, g_seconds = Some (0, 0)\<rparr>"
  have m: "match_period ''PT0S'' = Some ?g" by code_simp
  have "timedelta_new ?g = microseconds_to_delta
          (0 * 1000000 + 0 * 60000000 + 0 * 3600000000 + 0 * 86400000000 + 0 * 604800000000)"
    by (rule timedelta_new_whole) (simp_all add: group_value_def)
  then have "timedelta_new ?g = Some \<lparr>days = 0, seconds = 0, microseconds = 0\<rparr>"
    by (simp add: microseconds_to_delta_def)
  then have "signed_timedelta ?g = Some \<lparr>days = 0, seconds = 0, microseconds = 0\<rparr>"
    by (simp add: signed_timedelta_def)
  then show ?thesis
    by (simp add: parse_duration_def m calendar_def group_value_def)
qed

lemma parse_duration_minus_hour:
  "parse_duration lib ''-PT1H'' = IsoTimedelta \<lparr>days = - 1, seconds = 82800, microseconds = 0\<rparr>"
proof -
  let ?g = "\<lparr>g_sign = Some CHR ''-'', g_years = None, g_months = None, g_weeks = None,
           g_days = None, g_hours = Some (1, 0), g_minutes = None, g_seconds = None\<rparr>"
  have m: "match_period ''-PT1H'' = Some ?g" by code_simp
  have "timedelta_new ?g = microseconds_to_delta
          (0 * 1000000 + 0 * 60000000 + 1 * 3600000000 + 0 * 86400000000 + 0 * 604800000000)"
    by (rule timedelta_new_whole) (simp_all add: group_value_def)
  then have "timedelta_new ?g = Some \<lparr>days = 0, seconds = 3600, microseconds = 0\<rparr>"
    by (simp add: microseconds_to_delta_def)
  then have "signed_timedelta ?g = Some \<lparr>days = - 1, seconds = 82800, microseconds = 0\<rparr>"
    by (simp add: signed_timedelta_def total_microseconds_def microseconds_to_delta_def)
  then show ?thesis
    by (simp add: parse_duration_def m calendar_def group_value_def)
qed

lemma parse_duration_minus_half_second:
  "parse_duration lib ''-PT0.5S'' =
     IsoTimedelta \<lparr>days = - 1, seconds = 86399, microseconds = 500000\<rparr>"
proof -
  let ?g = "\<lparr>g_sign = Some CHR ''-'', g_years = None, g_months = None, g_weeks = None,
           g_days = None, g_hours = None, g_minutes = None, g_seconds = Some (5, 1)\<rparr>"
  have m: "match_period ''-PT0.5S'' = Some ?g" by code_simp
  have f: "float_of_decimal (5, Suc 0) = (4503599627370496, 53)" by code_simp
  have z: "float_of_decimal (0, 0) = (0, 0)" by code_simp
  have a1: "accum (0, (0, 0)) (1000000, (4503599627370496, 53)) = (500000, (0, 0))" by code_simp
  have az: "\<And>factor. accum (500000, (0, 0)) (factor, (0, 0)) = (500000, (0, 0))"
    by (simp add: accum_def)
  have "timedelta_new ?g = microseconds_to_delta 500000"
    by (simp add: timedelta_new_def group_value_def f z a1 az round_leftover_none)
  then have "timedelta_new ?g = Some \<lparr>days = 0, seconds = 0, microseconds = 500000\<rparr>"
    by (simp add: microseconds_to_delta_def)
  then have "signed_timedelta ?g = Some \<lparr>days = - 1, seconds = 86399, microseconds = 500000\<rparr>"
    by (simp add: signed_timedelta_def total_microseconds_def microseconds_to_delta_def)
  then show ?thesis
    by (simp add: parse_duration_def m calendar_def group_value_def)
qed

lemma parse_duration_one_month: "parse_duration lib ''P1M'' = IsoDuration"
proof -
  let ?g = "\<lparr>g_sign = None, g_years = None, g_months = Some (1, 0), g_weeks = None,
           g_days = None, g_hours = None, g_minutes = None, g_seconds = None\<rparr>"
  have m: "match_period ''P1M'' = Some ?g" by code_simp
  have "timedelta_new ?g = microseconds_to_delta
          (0 * 1000000 + 0 * 60000000 + 0 * 3600000000 + 0 * 86400000000 + 0 * 604800000000)"
    by (rule timedelta_new_whole) (simp_all add: group_value_def)
  then have "timedelta_new ?g = Some \<lparr>days = 0, seconds = 0, microseconds = 0\<rparr>"
    by (simp add: microseconds_to_delta_def)
  then have "signed_timedelta ?g = Some \<lparr>days = 0, seconds = 0, microseconds = 0\<rparr>"
    by (simp add: signed_timedelta_def)
  then show ?thesis
    by (simp add: parse_duration_def m calendar_def group_value_def)
qed

text \<open>The sample table of the worked examples holds what the library returns.\<close>

lemma isodate_sample_agrees:
  "isodate_sample ''PT3H'' = parse_duration sample_texts ''PT3H''"
  "isodate_sample ''PT0S'' = parse_duration sample_texts ''PT0S''"
  "isodate_sample ''-PT1H'' = parse_duration sample_texts ''-PT1H''"
  "isodate_sample ''-PT0.5S'' = parse_duration sample_texts ''-PT0.5S''"
  "isodate_sample ''P1M'' = parse_duration sample_texts ''P1M''"
  "isodate_sample ''3 hours'' = parse_duration sample_texts ''3 hours''"
proof -
  show "isodate_sample ''PT3H'' = parse_duration sample_texts ''PT3H''"
    by (simp add: parse_duration_three_hours isodate_sample_def timedelta_hms_def)
  show "isodate_sample ''PT0S'' = parse_duration sample_texts ''PT0S''"
    by (simp add: parse_duration_zero_seconds isodate_sample_def timedelta_hms_def)
  show "isodate_sample ''-PT1H'' = parse_duration sample_texts ''-PT1H''"
    by (simp add: parse_duration_minus_hour isodate_sample_def timedelta_hms_def)
  show "isodate_sample ''-PT0.5S'' = parse_duration sample_texts ''-PT0.5S''"
    by (simp add: parse_duration_minus_half_second isodate_sample_def minus_half_second_def)
  show "isodate_sample ''P1M'' = parse_duration sample_texts ''P1M''"
    by (simp add: parse_duration_one_month isodate_sample_def)
  show "isodate_sample ''3 hours'' = parse_duration sample_texts ''3 hours''"
    by (simp add: parse_duration_def match_three_hours startswith_def isodate_sample_def
          sample_texts_def)
qed

end
